theory Spec2Isabelle
  imports Main
begin

section \<open>JavaScript values, requests and responses\<close>

text \<open>
  The errors that the registration pass can raise: the \<open>Error\<close> of the two
  assertions, the \<open>TypeError\<close> of the language itself (the \<open>in\<close> operator on a
  primitive, a call of something that is no function) and the container's
  \<open>ServiceNotFoundError\<close>.
\<close>

datatype exn = Error string | TypeError string | ServiceNotFoundError string

text \<open>
  The values a route method can return or throw. \<open>Undefined\<close> is the value of a method that
  returns nothing. Any value can be thrown; \<open>JError\<close> is an error object.
\<close>

datatype jsval =
    Undefined
  | Null
  | JBool bool
  | JNum int
  | JStr string
  | JArr "jsval list"
  | JObj "(string \<times> jsval) list"
  | JError exn

text \<open>A property key is a string or a symbol (\<open>string | symbol\<close>).\<close>

datatype propkey = PStr string | PSym nat

record request =
  originalUrl :: string
  body :: jsval

text \<open>
  The response as far as the code reads and writes it: the status code, the flag
  \<open>res.headersSent\<close> and the bodies handed to \<open>res.json\<close>, in order. An exchange is the response together with the
  arguments \<open>next\<close> has been called with.
\<close>

record response =
  statusCode :: nat
  headersSent :: bool
  jsonBodies :: "jsval list"

record exchange =
  res :: response
  nextArgs :: "jsval list"

text \<open>
  \<open>res.json(v)\<close> belongs to Express: it sends the body, after which the headers are sent.
  \<open>next(e)\<close> hands \<open>e\<close> to the error-handling middleware chain.
\<close>

definition res_json :: "jsval \<Rightarrow> exchange \<Rightarrow> exchange" where
  "res_json v ex =
     ex\<lparr>res := (res ex)\<lparr>headersSent := True, jsonBodies := jsonBodies (res ex) @ [v]\<rparr>\<rparr>"

definition res_status :: "nat \<Rightarrow> exchange \<Rightarrow> exchange" where
  "res_status n ex = ex\<lparr>res := (res ex)\<lparr>statusCode := n\<rparr>\<rparr>"

definition next_call :: "jsval \<Rightarrow> exchange \<Rightarrow> exchange" where
  "next_call e ex = ex\<lparr>nextArgs := nextArgs ex @ [e]\<rparr>"

text \<open>
  A controller method is called with \<open>(req, res, next)\<close>; it may write to the response or
  call \<open>next\<close> itself, and it completes by returning a value or by throwing one. A
  synchronous throw and a rejected promise both surface at the \<open>await\<close> inside the
  \<open>try\<close> block as a thrown value, so both are \<open>Throws\<close>; a plain value and a fulfilled
  promise are both \<open>Returns\<close>.
\<close>

datatype completion = Returns jsval | Throws jsval

type_synonym controller_method = "request \<Rightarrow> exchange \<Rightarrow> completion \<times> exchange"

text \<open>An instance is an object: its callable properties by key.\<close>

type_synonym object_instance = "propkey \<rightharpoonup> controller_method"

text \<open>What a request handler does when Express calls it with \<open>(req, res, next)\<close>.\<close>

type_synonym handler_fn = "request \<Rightarrow> exchange \<Rightarrow> exchange"

subsection \<open>\<open>Codex.createHandler\<close> (index.ts)\<close>

text \<open>
  \<open>instance[handlerKey](req, res, next)\<close>: calling a property that is no function throws a
  \<open>TypeError\<close> inside the \<open>try\<close> block.
\<close>

definition call_method :: "object_instance \<Rightarrow> propkey \<Rightarrow> controller_method" where
  "call_method inst handlerKey req ex =
     (case inst handlerKey of
        None \<Rightarrow> (Throws (JError (TypeError ''instance[handlerKey] is not a function'')), ex)
      | Some m \<Rightarrow> m req ex)"

definition createHandler :: "object_instance \<Rightarrow> propkey \<Rightarrow> handler_fn" where
  "createHandler inst handlerKey = (\<lambda>req ex.
     (case call_method inst handlerKey req ex of
        (Returns result, ex') \<Rightarrow>
          if result \<noteq> Undefined \<and> \<not> headersSent (res ex') then res_json result ex' else ex'
      | (Throws err, ex') \<Rightarrow> next_call err ex'))"

section \<open>Classes, Express, the container and the metadata store\<close>

text \<open>
  \<open>types/HttpMethod.ts\<close> is not among the sources; index.ts creates route decorators and
  verb methods for exactly these five.
\<close>

datatype HttpMethod = GET | POST | PUT | PATCH | DELETE

text \<open>
  A class is its constructor: an identity, the \<open>name\<close> property (empty for an anonymous
  class) and the object that \<open>new C()\<close> builds. Constructors are taken to be pure.
\<close>

record cls =
  cid :: nat
  cname :: string
  construct :: object_instance

text \<open>
  Express, as far as this repository drives it. A \<open>RequestHandler\<close> is a function, one of
  the middlewares Express builds (\<open>express.json()\<close>, \<open>express.urlencoded(options)\<close>,
  \<open>express.static(root, options)\<close>) or a router. An application and a router are the list of
  what has been mounted on them, in order: \<open>use(path?, ...handlers)\<close> and
  \<open>[verb](path, ...handlers)\<close>.
\<close>

datatype RequestHandler =
    Fn handler_fn
  | ExpressJson
  | ExpressUrlencoded jsval
  | ExpressStatic string "jsval option"
  | Router "layer list"
and layer =
    Use "string option" "RequestHandler list"
  | Verb HttpMethod string "RequestHandler list"

record RouteMetadata =
  route_method :: HttpMethod
  route_path :: string
  route_handler :: propkey
  route_middlewares :: "RequestHandler list"

record ModuleMetadata =
  controllers :: "cls list option"
  providers :: "cls list option"

text \<open>
  What the decorators of this repository store with \<open>Reflect.defineMetadata\<close>: a base path
  under \<open>codex:controller\<close>, a middleware list under \<open>codex:middlewares\<close>, a module's
  metadata under \<open>codex:module\<close>, the route descriptors under \<open>codex:routes\<close>.
\<close>

datatype metaval =
    MString string
  | MHandlers "RequestHandler list"
  | MModule ModuleMetadata
  | MRoutes "RouteMetadata list"

record config =
  jsonEnabled :: bool
  urlEncodedEnabled :: bool
  globalBaseRoute :: string
  globalMiddlewares :: "RequestHandler list"
  notFoundHandler :: "RequestHandler option"

text \<open>
  The state the code works on: the metadata store of \<open>reflect-metadata\<close> (by key and
  class), the services of typedi's global \<open>Container\<close> (a registered class, with its instance
  once it has one), the Express application \<open>this.app\<close>, \<open>this.config\<close>, the lines
  written with \<open>console.log\<close>, and Node's \<open>path.resolve(process.cwd(), _)\<close>.
\<close>

record world =
  metadata :: "string \<times> cls \<rightharpoonup> metaval"
  container :: "cls \<rightharpoonup> object_instance option"
  app :: "layer list"
  config :: config
  console :: "string list"
  path_resolve :: "string \<Rightarrow> string"

text \<open>A call either returns, or throws; either way it leaves a state behind.\<close>

datatype result = Done world | Threw exn world

fun world_of :: "result \<Rightarrow> world" where
  "world_of (Done w) = w"
| "world_of (Threw e w) = w"

fun and_then :: "result \<Rightarrow> (world \<Rightarrow> result) \<Rightarrow> result" where
  "and_then (Done w) f = f w"
| "and_then (Threw e w) f = Threw e w"

text \<open>\<open>xs.forEach(f)\<close>: a throw of \<open>f\<close> ends the loop.\<close>

fun forEach :: "('a \<Rightarrow> world \<Rightarrow> result) \<Rightarrow> 'a list \<Rightarrow> world \<Rightarrow> result" where
  "forEach f [] w = Done w"
| "forEach f (x # xs) w = and_then (f x w) (forEach f xs)"

definition console_log :: "string \<Rightarrow> world \<Rightarrow> world" where
  "console_log line w = w\<lparr>console := console w @ [line]\<rparr>"

text \<open>The check mark that starts the log lines, as its three UTF-8 bytes.\<close>

definition check_mark :: string where
  "check_mark = [CHR 0xE2, CHR 0x9C, CHR 0x93]"

subsection \<open>reflect-metadata\<close>

text \<open>
  Classes have no superclass here, so the walk along the prototype chain that
  \<open>getMetadata\<close> and \<open>hasMetadata\<close> make finds the class's own entries only.
\<close>

definition Reflect_defineMetadata :: "string \<Rightarrow> metaval \<Rightarrow> cls \<Rightarrow> world \<Rightarrow> world" where
  "Reflect_defineMetadata k v target w = w\<lparr>metadata := (metadata w)((k, target) \<mapsto> v)\<rparr>"

definition Reflect_getMetadata :: "string \<Rightarrow> cls \<Rightarrow> world \<Rightarrow> metaval option" where
  "Reflect_getMetadata k target w = metadata w (k, target)"

definition Reflect_hasMetadata :: "string \<Rightarrow> cls \<Rightarrow> world \<Rightarrow> bool" where
  "Reflect_hasMetadata k target w = (metadata w (k, target) \<noteq> None)"

subsection \<open>typedi\<close>

text \<open>
  The \<open>Service()\<close> decorator registers the class without an instance. \<open>Container.get\<close>
  returns the instance of a registered class, building and keeping it at the first call, and
  throws \<open>ServiceNotFoundError\<close> for a class that is not registered (typedi 0.10).
  \<open>Container.set(C, v)\<close> registers \<open>C\<close> with the instance \<open>v\<close>.
\<close>

definition TypeDiService :: "cls \<Rightarrow> world \<Rightarrow> world" where
  "TypeDiService target w = w\<lparr>container := (container w)(target \<mapsto> None)\<rparr>"

definition Container_has :: "cls \<Rightarrow> world \<Rightarrow> bool" where
  "Container_has C w = (container w C \<noteq> None)"

definition Container_set :: "cls \<Rightarrow> object_instance \<Rightarrow> world \<Rightarrow> world" where
  "Container_set C v w = w\<lparr>container := (container w)(C \<mapsto> Some v)\<rparr>"

definition Container_get :: "cls \<Rightarrow> world \<Rightarrow> exn + object_instance \<times> world" where
  "Container_get C w =
     (case container w C of
        None \<Rightarrow> Inl (ServiceNotFoundError (cname C))
      | Some (Some v) \<Rightarrow> Inr (v, w)
      | Some None \<Rightarrow> Inr (construct C, w\<lparr>container := (container w)(C \<mapsto> Some (construct C))\<rparr>))"

subsection \<open>Express\<close>

definition ExpressRouter :: "layer list" where
  "ExpressRouter = []"

definition router_use :: "RequestHandler list \<Rightarrow> layer list \<Rightarrow> layer list" where
  "router_use hs router = router @ [Use None hs]"

definition router_verb :: "HttpMethod \<Rightarrow> string \<Rightarrow> RequestHandler list \<Rightarrow> layer list \<Rightarrow> layer list" where
  "router_verb m p hs router = router @ [Verb m p hs]"

definition app_use :: "string option \<Rightarrow> RequestHandler list \<Rightarrow> world \<Rightarrow> world" where
  "app_use p hs w = w\<lparr>app := app w @ [Use p hs]\<rparr>"

text \<open>
  \<open>app[verb](path, ...handlers)\<close> adds a route. \<open>app.get(name)\<close> with one argument reads a
  setting and adds nothing.
\<close>

definition app_verb :: "HttpMethod \<Rightarrow> string \<Rightarrow> RequestHandler list \<Rightarrow> world \<Rightarrow> world" where
  "app_verb m p hs w = (if m = GET \<and> hs = [] then w else w\<lparr>app := app w @ [Verb m p hs]\<rparr>)"

section \<open>Assertions (assertion/assert.ts)\<close>

definition isController :: "cls \<Rightarrow> world \<Rightarrow> bool" where
  "isController target w = Reflect_hasMetadata ''codex:controller'' target w"

definition isModule :: "cls \<Rightarrow> world \<Rightarrow> bool" where
  "isModule target w = Reflect_hasMetadata ''codex:module'' target w"

text \<open>\<open>target.name || '(anonymous class)'\<close>\<close>

definition className :: "cls \<Rightarrow> string" where
  "className target = (if cname target = [] then ''(anonymous class)'' else cname target)"

text \<open>An assertion returns \<open>None\<close> when it passes and the error it throws otherwise.\<close>

definition assertController :: "cls \<Rightarrow> world \<Rightarrow> exn option" where
  "assertController target w =
     (if \<not> isController target w
      then Some (Error (className target @ '' is missing @Controller decorator. ''
                          @ ''Did you forget to add @Controller() to the class?''))
      else None)"

definition assertModule :: "cls \<Rightarrow> world \<Rightarrow> exn option" where
  "assertModule target w =
     (if \<not> isModule target w
      then Some (Error ('' '' @ className target @ '' is missing @Module() metadata.''))
      else None)"

section \<open>Decorators (decorators/DiDecorators.ts, decorators/RouteDecorator.ts)\<close>

text \<open>
  A decorator's optional argument is \<open>None\<close> when the caller leaves it out; the default
  parameter value then applies.
\<close>

definition Controller :: "string option \<Rightarrow> RequestHandler list option \<Rightarrow> cls \<Rightarrow> world \<Rightarrow> world" where
  "Controller basePath mws target w =
     (let bp = (case basePath of None \<Rightarrow> [] | Some s \<Rightarrow> s);
          ms = (case mws of None \<Rightarrow> [] | Some m \<Rightarrow> m);
          w1 = Reflect_defineMetadata ''codex:controller'' (MString bp) target w;
          w2 = Reflect_defineMetadata ''codex:middlewares'' (MHandlers ms) target w1
      in TypeDiService target w2)"

definition Module :: "ModuleMetadata \<Rightarrow> cls \<Rightarrow> world \<Rightarrow> world" where
  "Module md target w =
     TypeDiService target (Reflect_defineMetadata ''codex:module'' (MModule md) target w)"

text \<open>
  The reads of the metadata store, as the code makes them.
  \<open>Reflect.getMetadata('codex:routes', C) || []\<close> and its like: the stored value, or the
  default when nothing is stored. Under each key the store holds what the decorators above
  write there.
\<close>

definition routesOf :: "cls \<Rightarrow> world \<Rightarrow> RouteMetadata list" where
  "routesOf C w =
     (case Reflect_getMetadata ''codex:routes'' C w of Some (MRoutes rs) \<Rightarrow> rs | _ \<Rightarrow> [])"

definition basePathOf :: "cls \<Rightarrow> world \<Rightarrow> string" where
  "basePathOf C w =
     (case Reflect_getMetadata ''codex:controller'' C w of Some (MString s) \<Rightarrow> s | _ \<Rightarrow> [])"

definition middlewaresOf :: "cls \<Rightarrow> world \<Rightarrow> RequestHandler list" where
  "middlewaresOf C w =
     (case Reflect_getMetadata ''codex:middlewares'' C w of Some (MHandlers ms) \<Rightarrow> ms | _ \<Rightarrow> [])"

text \<open>
  \<open>const { controllers = [], providers = [] } = Reflect.getMetadata('codex:module', C)\<close>:
  destructuring \<open>undefined\<close> throws; a value without the two properties gives the defaults.
\<close>

definition moduleMetadataOf :: "cls \<Rightarrow> world \<Rightarrow> exn + ModuleMetadata" where
  "moduleMetadataOf C w =
     (case Reflect_getMetadata ''codex:module'' C w of
        None \<Rightarrow> Inl (TypeError ''Cannot destructure property controllers of metadata as it is undefined.'')
      | Some (MModule md) \<Rightarrow> Inr md
      | Some _ \<Rightarrow> Inr \<lparr>controllers = None, providers = None\<rparr>)"

definition controllersOf :: "ModuleMetadata \<Rightarrow> cls list" where
  "controllersOf md = (case controllers md of None \<Rightarrow> [] | Some cs \<Rightarrow> cs)"

definition providersOf :: "ModuleMetadata \<Rightarrow> cls list" where
  "providersOf md = (case providers md of None \<Rightarrow> [] | Some ps \<Rightarrow> ps)"

text \<open>
  The method decorator receives the prototype and the property key and works on
  \<open>target.constructor\<close>, the class; the class is the argument here.
\<close>

definition createRouteDecorator ::
  "HttpMethod \<Rightarrow> string option \<Rightarrow> RequestHandler list option \<Rightarrow> cls \<Rightarrow> propkey \<Rightarrow> world \<Rightarrow> world" where
  "createRouteDecorator m pathArg mws target propertyKey w =
     (let p = (case pathArg of None \<Rightarrow> ''/'' | Some s \<Rightarrow> s);
          ms = (case mws of None \<Rightarrow> [] | Some x \<Rightarrow> x);
          routes = routesOf target w;
          routes' = routes @ [\<lparr>route_method = m, route_path = p,
                               route_handler = propertyKey, route_middlewares = ms\<rparr>]
      in Reflect_defineMetadata ''codex:routes'' (MRoutes routes') target w)"

definition Get :: "string option \<Rightarrow> RequestHandler list option \<Rightarrow> cls \<Rightarrow> propkey \<Rightarrow> world \<Rightarrow> world" where
  "Get = createRouteDecorator GET"

definition Post :: "string option \<Rightarrow> RequestHandler list option \<Rightarrow> cls \<Rightarrow> propkey \<Rightarrow> world \<Rightarrow> world" where
  "Post = createRouteDecorator POST"

definition Put :: "string option \<Rightarrow> RequestHandler list option \<Rightarrow> cls \<Rightarrow> propkey \<Rightarrow> world \<Rightarrow> world" where
  "Put = createRouteDecorator PUT"

definition Patch :: "string option \<Rightarrow> RequestHandler list option \<Rightarrow> cls \<Rightarrow> propkey \<Rightarrow> world \<Rightarrow> world" where
  "Patch = createRouteDecorator PATCH"

definition Delete :: "string option \<Rightarrow> RequestHandler list option \<Rightarrow> cls \<Rightarrow> propkey \<Rightarrow> world \<Rightarrow> world" where
  "Delete = createRouteDecorator DELETE"

section \<open>The \<open>Codex\<close> class (index.ts)\<close>

subsection \<open>Configuration calls\<close>

definition initial_config :: config where
  "initial_config = \<lparr>jsonEnabled = False, urlEncodedEnabled = False, globalBaseRoute = [],
                      globalMiddlewares = [], notFoundHandler = None\<rparr>"

definition createHttpMethod :: "HttpMethod \<Rightarrow> string \<Rightarrow> RequestHandler list \<Rightarrow> world \<Rightarrow> world" where
  "createHttpMethod m = (\<lambda>p handlers w.
     let fullPath = globalBaseRoute (config w) @ p in app_verb m fullPath handlers w)"

definition startsWithSlash :: "string \<Rightarrow> bool" where
  "startsWithSlash s = (case s of [] \<Rightarrow> False | c # _ \<Rightarrow> c = CHR ''/'')"

text \<open>\<open>s.replace(/\/+$/, '')\<close>: the run of slashes that ends the string is removed.\<close>

definition stripTrailingSlashes :: "string \<Rightarrow> string" where
  "stripTrailingSlashes s = rev (dropWhile (\<lambda>c. c = CHR ''/'') (rev s))"

definition baseRoute :: "string \<Rightarrow> world \<Rightarrow> world" where
  "baseRoute p w =
     (if p = [] \<or> p = ''/''
      then w\<lparr>config := (config w)\<lparr>globalBaseRoute := []\<rparr>\<rparr>
      else
        let w1 = w\<lparr>config := (config w)\<lparr>globalBaseRoute :=
                     (if startsWithSlash p then p else ''/'' @ p)\<rparr>\<rparr>
        in w1\<lparr>config := (config w1)\<lparr>globalBaseRoute :=
                     stripTrailingSlashes (globalBaseRoute (config w1))\<rparr>\<rparr>)"

text \<open>\<open>app.use()\<close> without a middleware function throws in Express.\<close>

definition use :: "string option \<Rightarrow> RequestHandler list \<Rightarrow> world \<Rightarrow> result" where
  "use p args w =
     (if args = [] then Threw (TypeError ''app.use() requires a middleware function'') w
      else Done (app_use p args w))"

definition useBefore :: "RequestHandler list \<Rightarrow> world \<Rightarrow> world" where
  "useBefore mws w = (if length mws > 0 then app_use None mws w else w)"

definition defaultNotFound :: handler_fn where
  "defaultNotFound = (\<lambda>req ex.
     res_json (JObj [(''status'', JStr ''fail''),
                     (''message'', JStr (originalUrl req @ '' not found''))])
       (res_status 404 ex))"

definition handleNotFound :: "RequestHandler option \<Rightarrow> world \<Rightarrow> world" where
  "handleNotFound h w =
     (let finalHandler =
        (case h of
           Some x \<Rightarrow> x
         | None \<Rightarrow> (case notFoundHandler (config w) of Some y \<Rightarrow> y | None \<Rightarrow> Fn defaultNotFound))
      in app_use None [finalHandler] w)"

definition enableJson :: "world \<Rightarrow> world" where
  "enableJson w =
     (if \<not> jsonEnabled (config w)
      then console_log (check_mark @ '' JSON body parsing enabled'')
             ((app_use None [ExpressJson] w)\<lparr>config := (config w)\<lparr>jsonEnabled := True\<rparr>\<rparr>)
      else w)"

definition enableUrlEncoded :: "jsval option \<Rightarrow> world \<Rightarrow> world" where
  "enableUrlEncoded opts w =
     (let options = (case opts of None \<Rightarrow> JObj [(''extended'', JBool True)] | Some v \<Rightarrow> v)
      in if \<not> urlEncodedEnabled (config w)
         then console_log (check_mark @ '' URL-encoded body parsing enabled'')
                ((app_use None [ExpressUrlencoded options] w)
                   \<lparr>config := (config w)\<lparr>urlEncodedEnabled := True\<rparr>\<rparr>)
         else w)"

definition serveStatic :: "string \<Rightarrow> string option \<Rightarrow> jsval option \<Rightarrow> world \<Rightarrow> world" where
  "serveStatic dirPath route opts w =
     (let resolvedPath = path_resolve w dirPath;
          mountPath = (case route of
                         None \<Rightarrow> ''/''
                       | Some r \<Rightarrow> if r = [] then ''/''
                                  else if startsWithSlash r then r else ''/'' @ r);
          w1 = console_log (''Serving static files from '' @ [CHR 0x22] @ resolvedPath @ [CHR 0x22]
                             @ '' at route '' @ [CHR 0x22] @ mountPath @ [CHR 0x22]) w
      in app_use (Some mountPath) [ExpressStatic resolvedPath opts] w1)"

subsection \<open>Registration\<close>

text \<open>
  The body of \<open>routes.forEach\<close>: the handler is wrapped and put on the router after the
  route's own middlewares.
\<close>

definition addRoute :: "object_instance \<Rightarrow> layer list \<Rightarrow> RouteMetadata \<Rightarrow> layer list" where
  "addRoute inst router r =
     (let wrappedHandler = createHandler inst (route_handler r)
      in router_verb (route_method r) (route_path r)
           (route_middlewares r @ [Fn wrappedHandler]) router)"

text \<open>
  The router of one controller: a new router, the middlewares \<open>outer\<close> of the caller (the
  global ones, or the group's) when there are any, the controller's own when there are any,
  then the routes.
\<close>

definition controllerRouter ::
  "RequestHandler list \<Rightarrow> RequestHandler list \<Rightarrow> object_instance \<Rightarrow> RouteMetadata list \<Rightarrow> layer list" where
  "controllerRouter outer controllerMiddlewares inst routes =
     (let router = ExpressRouter;
          router1 = (if length outer > 0 then router_use outer router else router);
          router2 = (if length controllerMiddlewares > 0
                     then router_use controllerMiddlewares router1 else router1)
      in foldl (addRoute inst) router2 routes)"

text \<open>The body of \<open>controllers.forEach\<close> in \<open>registerControllers\<close>.\<close>

definition registerController :: "cls \<Rightarrow> world \<Rightarrow> result" where
  "registerController ControllerClass w =
     (case assertController ControllerClass w of
        Some e \<Rightarrow> Threw e w
      | None \<Rightarrow>
          let basePath = basePathOf ControllerClass w;
              controllerMiddlewares = middlewaresOf ControllerClass w
          in (case Container_get ControllerClass w of
                Inl e \<Rightarrow> Threw e w
              | Inr (inst, w1) \<Rightarrow>
                  let routes = routesOf ControllerClass w1;
                      router = controllerRouter (globalMiddlewares (config w1))
                                 controllerMiddlewares inst routes;
                      w2 = app_use (Some (globalBaseRoute (config w1) @ basePath)) [Router router] w1
                  in Done (console_log
                       (check_mark @ '' Registered controller: '' @ cname ControllerClass @ '' at ''
                          @ globalBaseRoute (config w2) @ basePath) w2)))"

definition registerControllers :: "cls list \<Rightarrow> world \<Rightarrow> result" where
  "registerControllers cs w = forEach registerController cs w"

text \<open>The body of \<open>controllers.forEach\<close> inside a group of \<open>registerModules\<close>.\<close>

definition registerGroupController ::
  "string \<Rightarrow> RequestHandler list \<Rightarrow> cls \<Rightarrow> world \<Rightarrow> result" where
  "registerGroupController routePrefix mws ControllerClass w =
     (case assertController ControllerClass w of
        Some e \<Rightarrow> Threw e w
      | None \<Rightarrow>
          let basePath = basePathOf ControllerClass w;
              controllerMiddlewares = middlewaresOf ControllerClass w
          in (case Container_get ControllerClass w of
                Inl e \<Rightarrow> Threw e w
              | Inr (inst, w1) \<Rightarrow>
                  let routes = routesOf ControllerClass w1;
                      router = controllerRouter mws controllerMiddlewares inst routes;
                      w2 = app_use (Some (globalBaseRoute (config w1) @ routePrefix @ basePath))
                             [Router router] w1
                  in Done (console_log
                       (check_mark @ '' Registered controller: '' @ cname ControllerClass @ '' at ''
                          @ globalBaseRoute (config w2) @ routePrefix @ basePath) w2)))"

text \<open>
  The two provider loops: a directly registered module sets a new instance for a provider the
  container does not have; a module of a group asks the container for it.
\<close>

definition setProvider :: "cls \<Rightarrow> world \<Rightarrow> result" where
  "setProvider provider w =
     (if \<not> Container_has provider w
      then Done (Container_set provider (construct provider) w)
      else Done w)"

definition getProvider :: "cls \<Rightarrow> world \<Rightarrow> result" where
  "getProvider provider w =
     (if \<not> Container_has provider w
      then (case Container_get provider w of Inl e \<Rightarrow> Threw e w | Inr (v, w1) \<Rightarrow> Done w1)
      else Done w)"

text \<open>The body of \<open>item.modules.forEach\<close>.\<close>

definition registerGroupModule :: "string \<Rightarrow> RequestHandler list \<Rightarrow> cls \<Rightarrow> world \<Rightarrow> result" where
  "registerGroupModule routePrefix mws md w =
     (case assertModule md w of
        Some e \<Rightarrow> Threw e w
      | None \<Rightarrow>
          (case moduleMetadataOf md w of
             Inl e \<Rightarrow> Threw e w
           | Inr meta \<Rightarrow>
               and_then (forEach getProvider (providersOf meta) w) (\<lambda>w1.
               and_then (if length (controllersOf meta) > 0
                         then forEach (registerGroupController routePrefix mws) (controllersOf meta) w1
                         else Done w1) (\<lambda>w2.
               Done (console_log (check_mark @ '' Loaded module: '' @ cname md) w2)))))"

text \<open>
  An item of \<open>registerModules\<close> as the code meets it at run time: a function (a class), an
  object with its \<open>route\<close>, \<open>middlewares\<close> and \<open>modules\<close> properties where it has
  them, or a primitive value. \<open>ModuleRegistration\<close> allows the first, and the second with a
  \<open>modules\<close> array.
\<close>

datatype modules_prop = ModulesArray "cls list" | ModulesOther jsval

record registration_object =
  route :: "string option"
  middlewares :: "RequestHandler list option"
  modules :: "modules_prop option"

datatype primitive = PUndefined | PNull | PBool bool | PNum int | PString string

datatype registration =
    ModuleItem cls
  | GroupItem registration_object
  | PrimitiveItem primitive

text \<open>
  The body of \<open>registrations.forEach\<close>. The \<open>in\<close> operator throws a \<open>TypeError\<close> when
  its right operand is not an object.
\<close>

fun registerItem :: "registration \<Rightarrow> world \<Rightarrow> result" where
  "registerItem (ModuleItem item) w =
     (case assertModule item w of
        Some e \<Rightarrow> Threw e w
      | None \<Rightarrow>
          (case moduleMetadataOf item w of
             Inl e \<Rightarrow> Threw e w
           | Inr meta \<Rightarrow>
               and_then (forEach setProvider (providersOf meta) w) (\<lambda>w1.
               and_then (if length (controllersOf meta) > 0
                         then registerControllers (controllersOf meta) w1
                         else Done w1) (\<lambda>w2.
               Done (console_log (check_mark @ '' Loaded module: '' @ cname item) w2)))))"
| "registerItem (GroupItem item) w =
     (case modules item of
        Some (ModulesArray mods) \<Rightarrow>
          let routePrefix = (case route item of None \<Rightarrow> [] | Some r \<Rightarrow> r);
              mws = (case middlewares item of None \<Rightarrow> [] | Some m \<Rightarrow> m)
          in forEach (registerGroupModule routePrefix mws) mods w
      | _ \<Rightarrow> Done w)"
| "registerItem (PrimitiveItem v) w =
     Threw (TypeError ''Cannot use the in operator to search for modules in a primitive'') w"

definition registerModules :: "registration list \<Rightarrow> world \<Rightarrow> result" where
  "registerModules registrations w = forEach registerItem registrations w"

subsection \<open>Calls on a \<open>Codex\<close> object\<close>

datatype codex_call =
    CallVerb HttpMethod string "RequestHandler list"
  | CallBaseRoute string
  | CallUse "string option" "RequestHandler list"
  | CallUseBefore "RequestHandler list"
  | CallHandleNotFound "RequestHandler option"
  | CallEnableJson
  | CallEnableUrlEncoded "jsval option"
  | CallServeStatic string "string option" "jsval option"
  | CallRegisterModules "registration list"

fun call :: "codex_call \<Rightarrow> world \<Rightarrow> result" where
  "call (CallVerb m p hs) w = Done (createHttpMethod m p hs w)"
| "call (CallBaseRoute p) w = Done (baseRoute p w)"
| "call (CallUse p args) w = use p args w"
| "call (CallUseBefore mws) w = Done (useBefore mws w)"
| "call (CallHandleNotFound h) w = Done (handleNotFound h w)"
| "call CallEnableJson w = Done (enableJson w)"
| "call (CallEnableUrlEncoded opts) w = Done (enableUrlEncoded opts w)"
| "call (CallServeStatic d r opts) w = Done (serveStatic d r opts w)"
| "call (CallRegisterModules regs) w = registerModules regs w"

text \<open>
  A program's calls in order; one that throws is caught by the caller and the next call
  goes on from the state it left.
\<close>

fun calls :: "codex_call list \<Rightarrow> world \<Rightarrow> world" where
  "calls [] w = w"
| "calls (c # cs) w = calls cs (world_of (call c w))"

section \<open>The proxy (core/Proxy.ts)\<close>

text \<open>
  Objects are known by a reference of type \<open>'o\<close>; a value is a primitive or a reference. A
  function of the Express application is called with \<open>this\<close> and its arguments on a state
  \<open>'s\<close>, and returns a value or throws. A property of an object holds a value or a function.
\<close>

datatype 'o val = Prim jsval | Obj 'o

datatype 'o outcome = Return "'o val" | Throw jsval

datatype ('o, 's) member =
    Data "'o val"
  | Function "'o val \<Rightarrow> 'o val list \<Rightarrow> 's \<Rightarrow> 'o outcome \<times> 's"

text \<open>
  The target of the proxy: the properties \<open>prop in target\<close> finds (its own and the
  inherited ones), the Express application \<open>target.app\<close> with its properties, and the proxy
  that the constructor returns for it.
\<close>

record ('o, 's) proxy_target =
  own :: "propkey \<rightharpoonup> ('o, 's) member"
  app_ref :: 'o
  app_members :: "propkey \<rightharpoonup> ('o, 's) member"
  proxy_ref :: 'o

text \<open>\<open>o[prop]\<close> is \<open>undefined\<close> for a property the object does not have.\<close>

definition read_member :: "(propkey \<rightharpoonup> ('o, 's) member) \<Rightarrow> propkey \<Rightarrow> ('o, 's) member" where
  "read_member ms k = (case ms k of None \<Rightarrow> Data (Prim Undefined) | Some m \<Rightarrow> m)"

definition Reflect_get :: "('o, 's) proxy_target \<Rightarrow> propkey \<Rightarrow> 'o val \<Rightarrow> ('o, 's) member" where
  "Reflect_get target k receiver = read_member (own target) k"

definition blocked :: "string list" where
  "blocked = [''use'', ''enableJson'', ''enableUrlEncoded'', ''registerModules'']"

definition blocked_includes :: "propkey \<Rightarrow> bool" where
  "blocked_includes k = (case k of PStr s \<Rightarrow> s \<in> set blocked | PSym n \<Rightarrow> False)"

definition proxyHandler :: "('o, 's) proxy_target \<Rightarrow> propkey \<Rightarrow> 'o val \<Rightarrow> ('o, 's) member" where
  "proxyHandler target k receiver =
     (if own target k \<noteq> None then Reflect_get target k receiver
      else if blocked_includes k then Reflect_get target k receiver
      else
        (case read_member (app_members target) k of
           Function f \<Rightarrow>
             Function (\<lambda>this args st.
               (case f (Obj (app_ref target)) args st of
                  (Return r, st') \<Rightarrow>
                    (Return (if r = Obj (app_ref target) then receiver else r), st')
                | (Throw e, st') \<Rightarrow> (Throw e, st')))
         | Data d \<Rightarrow> Data d))"

text \<open>
  The names \<open>prop in target\<close> finds on a \<open>Codex\<close> object: the two fields, the five verb
  methods the constructor sets, the methods of the class, and what every object inherits
  from \<open>Object.prototype\<close>.
\<close>

definition codexKeys :: "string list" where
  "codexKeys =
     [''app'', ''config'', ''get'', ''post'', ''put'', ''delete'', ''patch'',
      ''constructor'', ''instance'', ''createHttpMethod'', ''baseRoute'', ''use'', ''useBefore'',
      ''handleNotFound'', ''enableJson'', ''enableUrlEncoded'', ''serveStatic'',
      ''registerModules'', ''registerControllers'', ''registerProviders'', ''createHandler'',
      ''hasOwnProperty'', ''isPrototypeOf'', ''propertyIsEnumerable'', ''toLocaleString'',
      ''toString'', ''valueOf'', ''__proto__'', ''__defineGetter__'', ''__defineSetter__'',
      ''__lookupGetter__'', ''__lookupSetter__'']"

definition isCodex :: "('o, 's) proxy_target \<Rightarrow> bool" where
  "isCodex target = list_all (\<lambda>k. own target (PStr k) \<noteq> None) codexKeys"

text \<open>
  \<open>new Codex()\<close> returns \<open>new CodexProxy(this)\<close>, a \<open>Proxy\<close> whose \<open>get\<close> trap is
  \<open>proxyHandler\<close>: reading a property of it calls the trap with the proxy as receiver.
\<close>

definition proxy_get :: "('o, 's) proxy_target \<Rightarrow> propkey \<Rightarrow> ('o, 's) member" where
  "proxy_get target k = proxyHandler target k (Obj (proxy_ref target))"

section \<open>What registration is to mount\<close>

text \<open>
  The instance \<open>Container.get(C)\<close> gives for a registered class: the one the container
  keeps, or a new one.
\<close>

definition containerInstance :: "cls \<Rightarrow> world \<Rightarrow> object_instance" where
  "containerInstance C w = (case container w C of Some (Some v) \<Rightarrow> v | _ \<Rightarrow> construct C)"

text \<open>
  The mount of one controller: a router built from nothing for it, used under the global base
  route, then the route prefix, then the controller's base path.
\<close>

definition controllerMount :: "string \<Rightarrow> RequestHandler list \<Rightarrow> world \<Rightarrow> cls \<Rightarrow> layer" where
  "controllerMount routePrefix outer w C =
     Use (Some (globalBaseRoute (config w) @ routePrefix @ basePathOf C w))
       [Router (controllerRouter outer (middlewaresOf C w) (containerInstance C w) (routesOf C w))]"

definition moduleControllers :: "cls \<Rightarrow> world \<Rightarrow> cls list" where
  "moduleControllers md w =
     (case moduleMetadataOf md w of Inl e \<Rightarrow> [] | Inr meta \<Rightarrow> controllersOf meta)"

fun itemModules :: "registration \<Rightarrow> cls list" where
  "itemModules (ModuleItem item) = [item]"
| "itemModules (GroupItem item) =
     (case modules item of Some (ModulesArray mods) \<Rightarrow> mods | _ \<Rightarrow> [])"
| "itemModules (PrimitiveItem v) = []"

fun itemMounts :: "world \<Rightarrow> registration \<Rightarrow> layer list" where
  "itemMounts w (ModuleItem item) =
     map (controllerMount [] (globalMiddlewares (config w)) w) (moduleControllers item w)"
| "itemMounts w (GroupItem item) =
     concat (map (\<lambda>md.
        map (controllerMount (case route item of None \<Rightarrow> [] | Some r \<Rightarrow> r)
                             (case middlewares item of None \<Rightarrow> [] | Some m \<Rightarrow> m) w)
            (moduleControllers md w))
        (itemModules (GroupItem item)))"
| "itemMounts w (PrimitiveItem v) = []"

definition expectedMounts :: "world \<Rightarrow> registration list \<Rightarrow> layer list" where
  "expectedMounts w regs = concat (map (itemMounts w) regs)"

definition itemControllers :: "world \<Rightarrow> registration \<Rightarrow> cls list" where
  "itemControllers w item = concat (map (\<lambda>md. moduleControllers md w) (itemModules item))"

definition listedControllers :: "world \<Rightarrow> registration list \<Rightarrow> cls list" where
  "listedControllers w regs = concat (map (itemControllers w) regs)"

section \<open>What registration leaves alone\<close>

text \<open>
  Registration reads the metadata store and the configuration and never writes them.
\<close>

definition stable :: "world \<Rightarrow> world \<Rightarrow> bool" where
  "stable w v = (metadata v = metadata w \<and> config v = config w \<and> path_resolve v = path_resolve w)"

section \<open>Route descriptors\<close>

text \<open>
  The descriptor one application of a verb decorator is to record: the verb, the path
  (\<open>'/'\<close> when none is given), the decorated property key and the middleware list (empty
  when none is given).
\<close>

definition descriptor ::
  "HttpMethod \<Rightarrow> string option \<Rightarrow> RequestHandler list option \<Rightarrow> propkey \<Rightarrow> RouteMetadata" where
  "descriptor m pathArg mws k =
     \<lparr>route_method = m, route_path = (case pathArg of None \<Rightarrow> ''/'' | Some s \<Rightarrow> s),
      route_handler = k, route_middlewares = (case mws of None \<Rightarrow> [] | Some x \<Rightarrow> x)\<rparr>"

text \<open>Verb decorators applied to methods of one class, one after the other.\<close>

fun decorate ::
  "cls \<Rightarrow> (HttpMethod \<times> string option \<times> RequestHandler list option \<times> propkey) list \<Rightarrow> world \<Rightarrow> world" where
  "decorate target [] w = w"
| "decorate target ((m, p, ms, k) # ds) w =
     decorate target ds (createRouteDecorator m p ms target k w)"

section \<open>The errors of the assertions\<close>

text \<open>
  The error for a class without \<open>codex:module\<close> metadata and the one for a class without
  \<open>codex:controller\<close> metadata: each names the class, or \<open>(anonymous class)\<close>, and the
  decorator that is missing.
\<close>

definition missingModule :: "cls \<Rightarrow> exn" where
  "missingModule target = Error ('' '' @ className target @ '' is missing @Module() metadata.'')"

definition missingController :: "cls \<Rightarrow> exn" where
  "missingController target =
     Error (className target @ '' is missing @Controller decorator. Did you forget to add @Controller() to the class?'')"

section \<open>Mounting under the base route\<close>

text \<open>
  A layer is mounted under \<open>g\<close> when it has a path and the path starts with \<open>g\<close>. A state
  grows from another when metadata and configuration are the same and the application has
  only gained layers, each mounted under the global base route.
\<close>

definition mountedUnder :: "string \<Rightarrow> layer \<Rightarrow> bool" where
  "mountedUnder g l =
     (case l of
        Use None hs \<Rightarrow> False
      | Use (Some q) hs \<Rightarrow> take (length g) q = g
      | Verb m q hs \<Rightarrow> take (length g) q = g)"

definition grows :: "world \<Rightarrow> world \<Rightarrow> bool" where
  "grows w v = (stable w v \<and>
     (\<exists>ls. app v = app w @ ls \<and> list_all (mountedUnder (globalBaseRoute (config w))) ls))"

section \<open>What a registration that returns has done\<close>

text \<open>
  Two states are the same for registration when metadata and configuration agree, the
  container gives the same instance for every class, and an instance the container kept is
  still kept. A run from \<open>w\<close> to \<open>v\<close> has wired the layers \<open>ls\<close> and the classes
  \<open>cs\<close> when the states are the same in that sense, the application has gained exactly
  \<open>ls\<close>, and the container keeps for each class of \<open>cs\<close> the instance it gave.
\<close>

definition same :: "world \<Rightarrow> world \<Rightarrow> bool" where
  "same w v =
     (stable w v
      \<and> (\<forall>C. containerInstance C v = containerInstance C w)
      \<and> (\<forall>C x. container w C = Some (Some x) \<longrightarrow> container v C = Some (Some x)))"

definition wired :: "layer list \<Rightarrow> cls list \<Rightarrow> world \<Rightarrow> world \<Rightarrow> bool" where
  "wired ls cs w v =
     (same w v \<and> app v = app w @ ls
      \<and> list_all (\<lambda>C. container v C = Some (Some (containerInstance C w))) cs)"

section \<open>An example application\<close>

definition req0 :: request where
  "req0 = \<lparr>originalUrl = ''/users'', body = Null\<rparr>"

definition ex0 :: exchange where
  "ex0 = \<lparr>res = \<lparr>statusCode = 200, headersSent = False, jsonBodies = []\<rparr>, nextArgs = []\<rparr>"

text \<open>
  Four controller methods: one returns a value, one returns nothing, one sends the response
  itself and returns a value, one throws.
\<close>

definition listUsers :: controller_method where
  "listUsers req ex = (Returns (JArr [JStr ''ada'', JStr ''alan'']), ex)"

definition ping :: controller_method where
  "ping req ex = (Returns Undefined, ex)"

definition sendsItself :: controller_method where
  "sendsItself req ex = (Returns (JStr ''late''), res_json (JStr ''early'') ex)"

definition failing :: controller_method where
  "failing req ex = (Throws (JError (Error ''boom'')), ex)"

definition userInstance :: object_instance where
  "userInstance =
     [PStr ''list'' \<mapsto> listUsers, PStr ''ping'' \<mapsto> ping,
      PStr ''send'' \<mapsto> sendsItself, PStr ''fail'' \<mapsto> failing]"

definition UserController :: cls where
  "UserController = \<lparr>cid = 1, cname = ''UserController'', construct = userInstance\<rparr>"

definition UserModule :: cls where
  "UserModule = \<lparr>cid = 2, cname = ''UserModule'', construct = Map.empty\<rparr>"

definition Anonymous :: cls where
  "Anonymous = \<lparr>cid = 3, cname = [], construct = Map.empty\<rparr>"

definition auth :: RequestHandler where
  "auth = Fn (\<lambda>req ex. ex)"

definition world0 :: world where
  "world0 = \<lparr>metadata = Map.empty, container = Map.empty, app = [], config = initial_config,
             console = [], path_resolve = (\<lambda>d. ''/srv/'' @ d)\<rparr>"

text \<open>
  The state after the class definitions: \<open>@Controller('/users')\<close> with \<open>@Get('/')\<close> on
  \<open>list\<close> and \<open>@Post('/fail', [auth])\<close> on \<open>fail\<close>, and
  \<open>@Module({ controllers: [UserController] })\<close>.
\<close>

definition world1 :: world where
  "world1 =
     Module \<lparr>controllers = Some [UserController], providers = None\<rparr> UserModule
       (Controller (Some ''/users'') None UserController
          (Post (Some ''/fail'') (Some [auth]) UserController (PStr ''fail'')
             (Get None None UserController (PStr ''list'') world0)))"

text \<open>A group: \<open>{ route: '/v2', middlewares: [auth], modules: [UserModule] }\<close>.\<close>

definition apiGroup :: registration where
  "apiGroup = GroupItem \<lparr>route = Some ''/v2'', middlewares = Some [auth],
                         modules = Some (ModulesArray [UserModule])\<rparr>"

text \<open>
  An Express application for the proxy, with references \<open>0\<close> for the application, \<open>1\<close>
  for the proxy and \<open>2\<close> for a server, on a state that holds the settings: a value
  \<open>locals\<close>, \<open>set\<close>, which returns the application, and \<open>listen\<close>, which returns the
  server. The members of the \<open>Codex\<close> object itself are stand-ins that return the proxy.
\<close>

definition expressMembers :: "propkey \<rightharpoonup> (nat, (string \<times> jsval) list) member" where
  "expressMembers =
     [PStr ''locals'' \<mapsto> Data (Prim (JObj [])),
      PStr ''set'' \<mapsto> Function (\<lambda>this args st.
         (case args of
            [Prim (JStr name), Prim v] \<Rightarrow> (Return this, (name, v) # st)
          | _ \<Rightarrow> (Throw (JError (TypeError ''set needs a name and a value'')), st))),
      PStr ''listen'' \<mapsto> Function (\<lambda>this args st. (Return (Obj 2), st))]"

definition codexTarget :: "(nat, (string \<times> jsval) list) proxy_target" where
  "codexTarget =
     \<lparr>own = (\<lambda>k. case k of
                   PStr s \<Rightarrow> if s \<in> set codexKeys
                             then Some (Function (\<lambda>this args st. (Return (Obj 1), st)))
                             else None
                 | PSym n \<Rightarrow> None),
      app_ref = 0, app_members = expressMembers, proxy_ref = 1\<rparr>"

section \<open>Lemmas about loops and about what registration leaves alone\<close>

lemma forEach_append:
  "forEach f (xs @ ys) w = and_then (forEach f xs w) (forEach f ys)"
proof (induction xs arbitrary: w)
  case Nil
  show ?case by simp
next
  case (Cons x xs)
  show ?case by (cases "f x w") (simp_all add: Cons.IH)
qed

lemma forEach_preserves:
  assumes step: "\<And>x v. P v \<Longrightarrow> P (world_of (f x v))" and start: "P w"
  shows "P (world_of (forEach f xs w))"
  using start
proof (induction xs arbitrary: w)
  case Nil
  then show ?case by simp
next
  case (Cons x xs)
  have px: "P (world_of (f x w))" using step Cons.prems by blast
  show ?case
  proof (cases "f x w")
    case (Done v)
    with px Cons.IH [of v] show ?thesis by simp
  next
    case (Threw e v)
    with px show ?thesis by simp
  qed
qed

lemma stable_refl: "stable w w" by (simp add: stable_def)

lemma registerController_stable: "stable w v \<Longrightarrow> stable w (world_of (registerController C v))"
  by (simp add: stable_def registerController_def Container_get_def app_use_def console_log_def Let_def
      split: option.splits sum.splits prod.splits)

lemma registerGroupController_stable:
  "stable w v \<Longrightarrow> stable w (world_of (registerGroupController rp ms C v))"
  by (simp add: stable_def registerGroupController_def Container_get_def app_use_def console_log_def Let_def
      split: option.splits sum.splits prod.splits)

lemma setProvider_stable: "stable w v \<Longrightarrow> stable w (world_of (setProvider C v))"
  by (simp add: stable_def setProvider_def Container_set_def)

lemma getProvider_stable: "stable w v \<Longrightarrow> stable w (world_of (getProvider C v))"
  by (simp add: stable_def getProvider_def Container_get_def split: option.splits sum.splits prod.splits)

lemma world_of_and_then:
  "world_of (and_then r f) = (case r of Done v \<Rightarrow> world_of (f v) | Threw e v \<Rightarrow> v)"
  by (cases r) simp_all

lemma and_then_preserves:
  assumes "P (world_of r)" and "\<And>v. P v \<Longrightarrow> P (world_of (f v))"
  shows "P (world_of (and_then r f))"
  using assms by (cases r) simp_all

lemma if_preserves:
  assumes "b \<Longrightarrow> P (world_of r)" and "\<not> b \<Longrightarrow> P (world_of s)"
  shows "P (world_of (if b then r else s))"
  using assms by simp

lemma registerGroupModule_preserves:
  assumes ctl: "\<And>C u. P u \<Longrightarrow> P (world_of (registerGroupController rp ms C u))"
    and prov: "\<And>C u. P u \<Longrightarrow> P (world_of (getProvider C u))"
    and log: "\<And>s u. P u \<Longrightarrow> P (console_log s u)"
    and start: "P v"
  shows "P (world_of (registerGroupModule rp ms md v))"
proof (cases "assertModule md v")
  case (Some e)
  then show ?thesis using start by (simp add: registerGroupModule_def)
next
  case None
  show ?thesis
  proof (cases "moduleMetadataOf md v")
    case (Inl e)
    then show ?thesis using start None by (simp add: registerGroupModule_def)
  next
    case (Inr meta)
    show ?thesis
      unfolding registerGroupModule_def None Inr option.case sum.case
      by (intro and_then_preserves [where P = P] forEach_preserves [where P = P] if_preserves [where P = P]
            ctl prov start) (simp_all add: log)
  qed
qed

lemma registerItem_preserves:
  assumes ctl: "\<And>C u. P u \<Longrightarrow> P (world_of (registerController C u))"
    and gctl: "\<And>rp ms C u. P u \<Longrightarrow> P (world_of (registerGroupController rp ms C u))"
    and setp: "\<And>C u. P u \<Longrightarrow> P (world_of (setProvider C u))"
    and getp: "\<And>C u. P u \<Longrightarrow> P (world_of (getProvider C u))"
    and log: "\<And>s u. P u \<Longrightarrow> P (console_log s u)"
    and start: "P v"
  shows "P (world_of (registerItem item v))"
proof (cases item)
  case (ModuleItem c)
  show ?thesis
  proof (cases "assertModule c v")
    case (Some e)
    then show ?thesis using start ModuleItem by simp
  next
    case None
    show ?thesis
    proof (cases "moduleMetadataOf c v")
      case (Inl e)
      then show ?thesis using start None ModuleItem by simp
    next
      case (Inr meta)
      show ?thesis
        unfolding ModuleItem registerItem.simps registerControllers_def None Inr option.case sum.case
        by (intro and_then_preserves [where P = P] forEach_preserves [where P = P] if_preserves [where P = P]
              ctl setp start) (simp_all add: log)
    qed
  qed
next
  case (GroupItem g)
  show ?thesis
  proof (cases "modules g")
    case None
    then show ?thesis using start GroupItem by simp
  next
    case (Some mp)
    show ?thesis
    proof (cases mp)
      case (ModulesArray mods)
      show ?thesis
        unfolding GroupItem registerItem.simps Some ModulesArray option.case modules_prop.case Let_def
        by (intro forEach_preserves [where P = P] registerGroupModule_preserves [where P = P]
              gctl getp log start)
    next
      case (ModulesOther x)
      then show ?thesis using start GroupItem Some by simp
    qed
  qed
next
  case (PrimitiveItem x)
  then show ?thesis using start by simp
qed

lemma registerModules_preserves:
  assumes ctl: "\<And>C u. P u \<Longrightarrow> P (world_of (registerController C u))"
    and gctl: "\<And>rp ms C u. P u \<Longrightarrow> P (world_of (registerGroupController rp ms C u))"
    and setp: "\<And>C u. P u \<Longrightarrow> P (world_of (setProvider C u))"
    and getp: "\<And>C u. P u \<Longrightarrow> P (world_of (getProvider C u))"
    and log: "\<And>s u. P u \<Longrightarrow> P (console_log s u)"
    and start: "P v"
  shows "P (world_of (registerModules regs v))"
  unfolding registerModules_def
  by (intro forEach_preserves [where P = P] registerItem_preserves [where P = P] assms)

lemma console_log_stable: "stable w v \<Longrightarrow> stable w (console_log s v)"
  by (simp add: stable_def console_log_def)

lemma registerModules_stable:
  "stable w v \<Longrightarrow> stable w (world_of (registerModules regs v))"
  by (rule registerModules_preserves [where P = "stable w"])
     (simp_all add: registerController_stable registerGroupController_stable setProvider_stable
        getProvider_stable console_log_stable)

lemma call_stable:
  "metadata (world_of (call c w)) = metadata w \<and> path_resolve (world_of (call c w)) = path_resolve w"
proof (cases c)
  case (CallRegisterModules regs)
  then show ?thesis using registerModules_stable [OF stable_refl, of w regs] by (simp add: stable_def)
qed (simp_all add: createHttpMethod_def app_verb_def baseRoute_def use_def useBefore_def handleNotFound_def
       enableJson_def enableUrlEncoded_def serveStatic_def app_use_def console_log_def Let_def)

lemma calls_metadata: "metadata (calls cs w) = metadata w"
  by (induction cs arbitrary: w) (simp_all add: call_stable)

section \<open>The wrapped route handler\<close>

text \<open>
  C1, as amended. When the controller method returns \<open>result\<close>, the wrapped handler passes
  it to \<open>res.json\<close>, once and unchanged, exactly when \<open>result\<close> is not \<open>undefined\<close> and
  the headers have not been sent yet; otherwise it writes nothing. In neither case does it
  call \<open>next\<close>.
\<close>

theorem createHandler_json:
  assumes "inst handlerKey = Some m" and "m req ex = (Returns result, ex')"
  shows "createHandler inst handlerKey req ex =
           (if result \<noteq> Undefined \<and> \<not> headersSent (res ex') then res_json result ex' else ex')
       \<and> jsonBodies (res (createHandler inst handlerKey req ex)) =
           (if result \<noteq> Undefined \<and> \<not> headersSent (res ex')
            then jsonBodies (res ex') @ [result] else jsonBodies (res ex'))
       \<and> nextArgs (createHandler inst handlerKey req ex) = nextArgs ex'"
  using assms by (simp add: createHandler_def call_method_def res_json_def)

theorem createHandler_json_witness:
  "jsonBodies (res (createHandler userInstance (PStr ''list'') req0 ex0)) =
     [JArr [JStr ''ada'', JStr ''alan'']]
   \<and> nextArgs (createHandler userInstance (PStr ''list'') req0 ex0) = []"
proof -
  have a: "userInstance (PStr ''list'') = Some listUsers"
    by (simp add: userInstance_def)
  have b: "listUsers req0 ex0 = (Returns (JArr [JStr ''ada'', JStr ''alan'']), ex0)"
    by (simp add: listUsers_def)
  show ?thesis
    using createHandler_json [of userInstance "PStr ''list''" listUsers req0 ex0 _ ex0, OF a b]
    by (simp add: res_json_def ex0_def)
qed

text \<open>
  C1 as stated fails: a method that returns \<open>undefined\<close> has nothing passed to \<open>res.json\<close>,
  and neither has one that has sent the response itself before it returns a value.
\<close>

theorem createHandler_json_counterexample:
  "ping req0 ex0 = (Returns Undefined, ex0)
   \<and> jsonBodies (res (createHandler userInstance (PStr ''ping'') req0 ex0)) = []
   \<and> fst (sendsItself req0 ex0) = Returns (JStr ''late'')
   \<and> jsonBodies (res (createHandler userInstance (PStr ''send'') req0 ex0)) = [JStr ''early'']"
  by (simp add: createHandler_def call_method_def userInstance_def ping_def sendsItself_def
        res_json_def ex0_def)

text \<open>
  C2. When the controller method throws \<open>err\<close> (or the promise it returns rejects with
  it), the wrapped handler calls \<open>next\<close> with \<open>err\<close>, once, and leaves the response as the
  method left it: nothing is passed to \<open>res.json\<close>.
\<close>

theorem createHandler_forwards_error:
  assumes "inst handlerKey = Some m" and "m req ex = (Throws err, ex')"
  shows "createHandler inst handlerKey req ex = next_call err ex'
       \<and> nextArgs (createHandler inst handlerKey req ex) = nextArgs ex' @ [err]
       \<and> res (createHandler inst handlerKey req ex) = res ex'"
  using assms by (simp add: createHandler_def call_method_def next_call_def)

theorem createHandler_forwards_error_witness:
  "nextArgs (createHandler userInstance (PStr ''fail'') req0 ex0) = [JError (Error ''boom'')]
   \<and> jsonBodies (res (createHandler userInstance (PStr ''fail'') req0 ex0)) = []"
proof -
  have a: "userInstance (PStr ''fail'') = Some failing"
    by (simp add: userInstance_def)
  have b: "failing req0 ex0 = (Throws (JError (Error ''boom'')), ex0)"
    by (simp add: failing_def)
  show ?thesis
    using createHandler_forwards_error
            [of userInstance "PStr ''fail''" failing req0 ex0 _ ex0, OF a b]
    by (simp add: next_call_def ex0_def)
qed

section \<open>Decorators and the metadata they leave\<close>

lemma routesOf_decorator:
  "routesOf target (createRouteDecorator m p ms target k w) =
     routesOf target w @ [descriptor m p ms k]"
  by (simp add: createRouteDecorator_def routesOf_def Reflect_defineMetadata_def
        Reflect_getMetadata_def descriptor_def Let_def)

lemma routesOf_decorator_other:
  "other \<noteq> target \<Longrightarrow>
     routesOf other (createRouteDecorator m p ms target k w) = routesOf other w"
  by (simp add: createRouteDecorator_def routesOf_def Reflect_defineMetadata_def
        Reflect_getMetadata_def Let_def)

lemma routesOf_decorate:
  "routesOf target (decorate target ds w) =
     routesOf target w @ map (\<lambda>(m, p, ms, k). descriptor m p ms k) ds"
  by (induction ds arbitrary: w) (auto simp: routesOf_decorator)

text \<open>
  C5. One application of \<open>Get\<close>, \<open>Post\<close>, \<open>Put\<close>, \<open>Patch\<close> or \<open>Delete\<close> to a
  method of a class appends one descriptor to the class's \<open>codex:routes\<close> list: the verb,
  the path (default \<open>'/'\<close>), the property key and the middleware list (default empty).
  What the list held before stays in front of it, unchanged, so after a run of applications
  the list holds their descriptors in the order of application.
\<close>

theorem route_decorator_appends:
  "routesOf target (Get p ms target k w) = routesOf target w @ [descriptor GET p ms k]
 \<and> routesOf target (Post p ms target k w) = routesOf target w @ [descriptor POST p ms k]
 \<and> routesOf target (Put p ms target k w) = routesOf target w @ [descriptor PUT p ms k]
 \<and> routesOf target (Patch p ms target k w) = routesOf target w @ [descriptor PATCH p ms k]
 \<and> routesOf target (Delete p ms target k w) = routesOf target w @ [descriptor DELETE p ms k]
 \<and> routesOf target (decorate target ds w) =
       routesOf target w @ map (\<lambda>(m, p, ms, k). descriptor m p ms k) ds"
  by (simp add: Get_def Post_def Put_def Patch_def Delete_def routesOf_decorator
        routesOf_decorate)

theorem route_decorator_appends_witness:
  "routesOf UserController world1 =
     [\<lparr>route_method = GET, route_path = ''/'', route_handler = PStr ''list'',
       route_middlewares = []\<rparr>,
      \<lparr>route_method = POST, route_path = ''/fail'', route_handler = PStr ''fail'',
       route_middlewares = [auth]\<rparr>]"
proof -
  have a: "routesOf UserController world0 = []"
    by (simp add: routesOf_def world0_def Reflect_getMetadata_def)
  have b: "routesOf UserController world1 = routesOf UserController
       (Post (Some ''/fail'') (Some [auth]) UserController (PStr ''fail'')
             (Get None None UserController (PStr ''list'') world0))"
    by (simp add: world1_def Module_def Controller_def TypeDiService_def routesOf_def
          Reflect_defineMetadata_def Reflect_getMetadata_def Let_def)
  show ?thesis
    using route_decorator_appends [of UserController None None "PStr ''list''" world0]
          route_decorator_appends [of UserController "Some ''/fail''" "Some [auth]"
             "PStr ''fail''" "Get None None UserController (PStr ''list'') world0"]
    by (simp add: a b descriptor_def)
qed

text \<open>
  C6. What \<open>Controller(basePath, middlewares)\<close> and \<open>Module(metadata)\<close> attach to a class
  is what the registration pass reads back under \<open>codex:controller\<close>,
  \<open>codex:middlewares\<close> and \<open>codex:module\<close>, unchanged, also after any calls on the
  \<open>Codex\<close> object in between. An argument left out reads back as its default.
\<close>

theorem metadata_roundtrip:
  "Reflect_getMetadata ''codex:controller'' target
       (calls cs (Controller (Some bp) (Some ms) target w)) = Some (MString bp)
 \<and> Reflect_getMetadata ''codex:middlewares'' target
       (calls cs (Controller (Some bp) (Some ms) target w)) = Some (MHandlers ms)
 \<and> Reflect_getMetadata ''codex:module'' target
       (calls cs (Module md target w)) = Some (MModule md)
 \<and> basePathOf target (calls cs (Controller bpArg msArg target w)) =
       (case bpArg of None \<Rightarrow> [] | Some s \<Rightarrow> s)
 \<and> middlewaresOf target (calls cs (Controller bpArg msArg target w)) =
       (case msArg of None \<Rightarrow> [] | Some m \<Rightarrow> m)
 \<and> moduleMetadataOf target (calls cs (Module md target w)) = Inr md"
  by (simp add: calls_metadata Controller_def Module_def TypeDiService_def
        Reflect_defineMetadata_def Reflect_getMetadata_def basePathOf_def middlewaresOf_def
        moduleMetadataOf_def Let_def)

theorem metadata_roundtrip_witness:
  "basePathOf UserController
     (calls [CallEnableJson] (Controller (Some ''/users'') (Some [auth]) UserController world0))
     = ''/users''
 \<and> middlewaresOf UserController
     (calls [CallEnableJson] (Controller (Some ''/users'') (Some [auth]) UserController world0))
     = [auth]
 \<and> moduleMetadataOf UserController
     (calls [CallEnableJson]
        (Module \<lparr>controllers = Some [UserController], providers = None\<rparr> UserController world0))
     = Inr \<lparr>controllers = Some [UserController], providers = None\<rparr>"
  using metadata_roundtrip [where target = UserController and cs = "[CallEnableJson]"
          and w = world0 and bpArg = "Some ''/users''" and msArg = "Some [auth]"
          and md = "\<lparr>controllers = Some [UserController], providers = None\<rparr>"]
  by simp

section \<open>Body parsers\<close>

lemma call_config_flags:
  "(jsonEnabled (config w) \<longrightarrow> jsonEnabled (config (world_of (call c w))))
 \<and> (urlEncodedEnabled (config w) \<longrightarrow> urlEncodedEnabled (config (world_of (call c w))))"
proof (cases c)
  case (CallRegisterModules regs)
  then show ?thesis using registerModules_stable [OF stable_refl, of w regs] by (simp add: stable_def)
qed (simp_all add: createHttpMethod_def app_verb_def baseRoute_def use_def useBefore_def handleNotFound_def
       enableJson_def enableUrlEncoded_def serveStatic_def app_use_def console_log_def Let_def)

lemma calls_jsonEnabled: "jsonEnabled (config w) \<Longrightarrow> jsonEnabled (config (calls cs w))"
  by (induction cs arbitrary: w) (simp_all add: call_config_flags)

lemma calls_urlEncodedEnabled:
  "urlEncodedEnabled (config w) \<Longrightarrow> urlEncodedEnabled (config (calls cs w))"
  by (induction cs arbitrary: w) (simp_all add: call_config_flags)

lemma enableJson_sets: "jsonEnabled (config (enableJson w))"
  by (simp add: enableJson_def app_use_def console_log_def)

lemma enableUrlEncoded_sets: "urlEncodedEnabled (config (enableUrlEncoded opts w))"
  by (simp add: enableUrlEncoded_def app_use_def console_log_def Let_def)

text \<open>
  C8. A new \<open>Codex\<close> object has both flags unset. On an object whose flag is still
  unset, \<open>enableJson\<close> puts
  \<open>express.json()\<close> on the application and sets \<open>jsonEnabled\<close>, and nothing else in the
  configuration. After that call, and whatever calls follow it, a further \<open>enableJson\<close>
  changes nothing at all. The same holds for \<open>enableUrlEncoded\<close>, whose parser gets the
  options given, \<open>{ extended: true }\<close> by default.
\<close>

theorem enable_idempotent:
  "\<not> jsonEnabled initial_config \<and> \<not> urlEncodedEnabled initial_config
 \<and> (\<not> jsonEnabled (config w) \<longrightarrow>
      app (enableJson w) = app w @ [Use None [ExpressJson]]
      \<and> config (enableJson w) = (config w)\<lparr>jsonEnabled := True\<rparr>)
 \<and> enableJson (calls cs (enableJson w)) = calls cs (enableJson w)
 \<and> (\<not> urlEncodedEnabled (config w) \<longrightarrow>
      app (enableUrlEncoded opts w) =
        app w @ [Use None [ExpressUrlencoded
                   (case opts of None \<Rightarrow> JObj [(''extended'', JBool True)] | Some v \<Rightarrow> v)]]
      \<and> config (enableUrlEncoded opts w) = (config w)\<lparr>urlEncodedEnabled := True\<rparr>)
 \<and> enableUrlEncoded opts' (calls cs (enableUrlEncoded opts w)) = calls cs (enableUrlEncoded opts w)"
proof -
  have a: "enableJson (calls cs (enableJson w)) = calls cs (enableJson w)"
    using calls_jsonEnabled [OF enableJson_sets, of cs w] by (simp add: enableJson_def [of "calls cs (enableJson w)"])
  have b: "enableUrlEncoded opts' (calls cs (enableUrlEncoded opts w)) = calls cs (enableUrlEncoded opts w)"
    using calls_urlEncodedEnabled [OF enableUrlEncoded_sets, of cs opts w]
    by (simp add: enableUrlEncoded_def [of opts' "calls cs (enableUrlEncoded opts w)"])
  show ?thesis
    by (simp add: a b)
       (simp add: enableJson_def enableUrlEncoded_def app_use_def console_log_def
          initial_config_def Let_def)
qed

theorem enable_idempotent_witness:
  "app (enableJson world0) = [Use None [ExpressJson]]
 \<and> jsonEnabled (config (enableJson world0))
 \<and> enableJson (calls [CallBaseRoute ''api''] (enableJson world0)) = calls [CallBaseRoute ''api''] (enableJson world0)
 \<and> app (enableUrlEncoded None world0) = [Use None [ExpressUrlencoded (JObj [(''extended'', JBool True)])]]"
  using enable_idempotent [of world0 "[CallBaseRoute ''api'']" None None]
  by (simp add: world0_def initial_config_def)

section \<open>Items that are no module\<close>

text \<open>
  C10, as amended. An item of \<open>registerModules\<close> that is an object, not a function, and
  has no array under \<open>modules\<close> is skipped: the call goes on as if the item were not in the
  list, with no error and no change of the state.
\<close>

theorem object_without_modules_skipped:
  assumes "\<forall>mods. modules item \<noteq> Some (ModulesArray mods)"
  shows "registerItem (GroupItem item) w = Done w
       \<and> registerModules (pre @ GroupItem item # rest) w = registerModules (pre @ rest) w"
proof -
  have a: "registerItem (GroupItem item) v = Done v" for v
    using assms by (simp split: option.splits modules_prop.splits)
  have b: "registerModules (pre @ GroupItem item # rest) w = registerModules (pre @ rest) w"
    by (cases "forEach registerItem pre w")
       (simp_all add: a registerModules_def forEach_append del: registerItem.simps)
  show ?thesis using a b by simp
qed

theorem object_without_modules_skipped_witness:
  "registerModules [GroupItem \<lparr>route = Some ''/api'', middlewares = None, modules = None\<rparr>,
                    GroupItem \<lparr>route = None, middlewares = None, modules = Some (ModulesOther (JStr ''x''))\<rparr>] world0
   = Done world0"
  using object_without_modules_skipped [of "\<lparr>route = Some ''/api'', middlewares = None, modules = None\<rparr>" world0 "[]" 
       "[GroupItem \<lparr>route = None, middlewares = None, modules = Some (ModulesOther (JStr ''x''))\<rparr>]"]
     object_without_modules_skipped [of "\<lparr>route = None, middlewares = None, modules = Some (ModulesOther (JStr ''x''))\<rparr>" world0 "[]" "[]"]
  by (simp add: registerModules_def)

text \<open>
  C10 as stated fails: \<open>null\<close> is neither a function nor an object with a \<open>modules\<close>
  array, and for it the \<open>in\<close> operator throws a \<open>TypeError\<close>.
\<close>

theorem primitive_item_counterexample:
  "registerModules [PrimitiveItem PNull] world0 =
     Threw (TypeError ''Cannot use the in operator to search for modules in a primitive'') world0"
  by (simp add: registerModules_def)

section \<open>Assertions during registration\<close>

lemma assertModule_iff:
  "assertModule target w = (if Reflect_hasMetadata ''codex:module'' target w then None else Some (missingModule target))"
  by (simp add: assertModule_def isModule_def missingModule_def)

lemma assertController_iff:
  "assertController target w =
     (if Reflect_hasMetadata ''codex:controller'' target w then None else Some (missingController target))"
  by (simp add: assertController_def isController_def missingController_def)

lemma forEach_reaches:
  assumes "forEach f pre w = Done v" and "f x v = Threw e v"
  shows "forEach f (pre @ x # rest) w = Threw e v"
  using assms by (simp add: forEach_append)

lemma registerItem_module_throws:
  "\<not> Reflect_hasMetadata ''codex:module'' target v \<Longrightarrow>
     registerItem (ModuleItem target) v = Threw (missingModule target) v"
  by (simp add: assertModule_iff)

lemma registerGroupModule_throws:
  "\<not> Reflect_hasMetadata ''codex:module'' target v \<Longrightarrow>
     registerGroupModule rp ms target v = Threw (missingModule target) v"
  by (simp add: registerGroupModule_def assertModule_iff)

lemma registerController_throws:
  "\<not> Reflect_hasMetadata ''codex:controller'' target v \<Longrightarrow>
     registerController target v = Threw (missingController target) v"
  by (simp add: registerController_def assertController_iff)

lemma registerGroupController_throws:
  "\<not> Reflect_hasMetadata ''codex:controller'' target v \<Longrightarrow>
     registerGroupController rp ms target v = Threw (missingController target) v"
  by (simp add: registerGroupController_def assertController_iff)

lemma registerController_passes:
  assumes "Reflect_hasMetadata ''codex:controller'' target v" and "Container_has target v"
  shows "(\<exists>u. registerController target v = Done u)
       \<and> (\<exists>u. registerGroupController rp ms target v = Done u)"
  using assms
  by (auto simp: registerController_def registerGroupController_def assertController_iff
        Container_has_def Container_get_def Let_def split: option.splits)

lemma module_controller_reached:
  assumes "Reflect_hasMetadata ''codex:module'' md v0"
    and "moduleMetadataOf md v0 = Inr meta"
    and "controllersOf meta = cs @ target # cs'"
    and "forEach setProvider (providersOf meta) v0 = Done v1"
    and "registerControllers cs v1 = Done v"
    and "\<not> Reflect_hasMetadata ''codex:controller'' target v"
  shows "registerItem (ModuleItem md) v0 = Threw (missingController target) v"
proof -
  have "registerControllers (cs @ target # cs') v1 = Threw (missingController target) v"
    using assms(5,6) unfolding registerControllers_def
    by (intro forEach_reaches registerController_throws)
  then show ?thesis using assms(1-4) by (simp add: assertModule_iff)
qed

lemma group_controller_reached:
  assumes "Reflect_hasMetadata ''codex:module'' md v0"
    and "moduleMetadataOf md v0 = Inr meta"
    and "controllersOf meta = cs @ target # cs'"
    and "forEach getProvider (providersOf meta) v0 = Done v1"
    and "forEach (registerGroupController rp ms) cs v1 = Done v"
    and "\<not> Reflect_hasMetadata ''codex:controller'' target v"
  shows "registerGroupModule rp ms md v0 = Threw (missingController target) v"
proof -
  have "forEach (registerGroupController rp ms) (cs @ target # cs') v1
          = Threw (missingController target) v"
    using assms(5,6) by (intro forEach_reaches registerGroupController_throws)
  then show ?thesis using assms(1-4) by (simp add: registerGroupModule_def assertModule_iff)
qed

text \<open>
  C3. \<open>assertModule\<close> throws exactly when the class has no \<open>codex:module\<close> metadata and
  \<open>assertController\<close> exactly when it has no \<open>codex:controller\<close> metadata; the error
  names the class, or \<open>(anonymous class)\<close>, and the missing decorator. Wherever registration
  reaches a class that lacks the metadata (an item of \<open>registerModules\<close>, a member of a
  group's \<open>modules\<close>, a class among a module's \<open>controllers\<close>, directly registered or in
  a group), it throws that error there, in the state it has reached. A controller that has
  the metadata and is registered with the container is registered without a throw.
\<close>

theorem assertions_throw:
  "(assertModule target w \<noteq> None \<longleftrightarrow> \<not> Reflect_hasMetadata ''codex:module'' target w)
 \<and> (assertController target w \<noteq> None \<longleftrightarrow> \<not> Reflect_hasMetadata ''codex:controller'' target w)
 \<and> (assertModule target w \<noteq> None \<longrightarrow> assertModule target w = Some (missingModule target))
 \<and> (assertController target w \<noteq> None \<longrightarrow>
      assertController target w = Some (missingController target))
 \<and> (registerModules pre w = Done v \<and> \<not> Reflect_hasMetadata ''codex:module'' target v \<longrightarrow>
      registerModules (pre @ ModuleItem target # rest) w = Threw (missingModule target) v)
 \<and> (registerModules pre w = Done v0 \<and> modules g = Some (ModulesArray (mods @ target # mods'))
      \<and> forEach (registerGroupModule (case route g of None \<Rightarrow> [] | Some r \<Rightarrow> r)
                    (case middlewares g of None \<Rightarrow> [] | Some m \<Rightarrow> m)) mods v0 = Done v
      \<and> \<not> Reflect_hasMetadata ''codex:module'' target v \<longrightarrow>
      registerModules (pre @ GroupItem g # rest) w = Threw (missingModule target) v)
 \<and> (Reflect_hasMetadata ''codex:module'' md v0 \<and> moduleMetadataOf md v0 = Inr meta
      \<and> controllersOf meta = cs @ target # cs'
      \<and> forEach setProvider (providersOf meta) v0 = Done v1
      \<and> registerControllers cs v1 = Done v
      \<and> \<not> Reflect_hasMetadata ''codex:controller'' target v \<longrightarrow>
      registerItem (ModuleItem md) v0 = Threw (missingController target) v)
 \<and> (Reflect_hasMetadata ''codex:module'' md v0 \<and> moduleMetadataOf md v0 = Inr meta
      \<and> controllersOf meta = cs @ target # cs'
      \<and> forEach getProvider (providersOf meta) v0 = Done v1
      \<and> forEach (registerGroupController rp ms) cs v1 = Done v
      \<and> \<not> Reflect_hasMetadata ''codex:controller'' target v \<longrightarrow>
      registerGroupModule rp ms md v0 = Threw (missingController target) v)
 \<and> (Reflect_hasMetadata ''codex:controller'' target v \<and> Container_has target v \<longrightarrow>
      (\<exists>u. registerController target v = Done u)
      \<and> (\<exists>u. registerGroupController rp ms target v = Done u))"
proof -
  have group: "registerModules (pre @ GroupItem g # rest) w = Threw (missingModule target) v"
    if "registerModules pre w = Done v0"
      and "modules g = Some (ModulesArray (mods @ target # mods'))"
      and "forEach (registerGroupModule (case route g of None \<Rightarrow> [] | Some r \<Rightarrow> r)
                    (case middlewares g of None \<Rightarrow> [] | Some m \<Rightarrow> m)) mods v0 = Done v"
      and "\<not> Reflect_hasMetadata ''codex:module'' target v"
  proof -
    have "registerItem (GroupItem g) v0 = Threw (missingModule target) v"
      using that(2-4) by (simp add: forEach_reaches registerGroupModule_throws)
    then show ?thesis
      using that(1) by (simp add: registerModules_def forEach_append del: registerItem.simps)
  qed
  show ?thesis
    using group module_controller_reached group_controller_reached registerController_passes
    by (simp add: assertModule_iff assertController_iff registerModules_def
          forEach_reaches registerItem_module_throws del: registerItem.simps)
qed

lemmas example_defs = world1_def world0_def Module_def Controller_def Get_def Post_def createRouteDecorator_def
  Reflect_defineMetadata_def Reflect_getMetadata_def Reflect_hasMetadata_def TypeDiService_def routesOf_def
  UserController_def UserModule_def Anonymous_def initial_config_def Let_def


theorem assertions_throw_witness:
  "registerModules [ModuleItem Anonymous] world1 =
     Threw (Error '' (anonymous class) is missing @Module() metadata.'') world1
 \<and> registerModules [ModuleItem UserController] world1 =
     Threw (Error '' UserController is missing @Module() metadata.'') world1
 \<and> assertModule UserModule world1 = None
 \<and> assertController UserController world1 = None
 \<and> assertController UserModule world1 = Some (Error
      ''UserModule is missing @Controller decorator. Did you forget to add @Controller() to the class?'')"
proof -
  have a: "\<not> Reflect_hasMetadata ''codex:module'' Anonymous world1"
    by (simp add: example_defs)
  have b: "\<not> Reflect_hasMetadata ''codex:module'' UserController world1"
    by (simp add: example_defs)
  have c: "Reflect_hasMetadata ''codex:module'' UserModule world1"
    by (simp add: example_defs)
  have d: "Reflect_hasMetadata ''codex:controller'' UserController world1"
    by (simp add: example_defs)
  have e: "\<not> Reflect_hasMetadata ''codex:controller'' UserModule world1"
    by (simp add: example_defs)
  have f: "registerModules [] world1 = Done world1"
    by (simp add: registerModules_def)
  show ?thesis
    using assertions_throw [where target = Anonymous and w = world1 and pre = "[]" and v = world1 and rest = "[]"]
          assertions_throw [where target = UserController and w = world1 and pre = "[]" and v = world1 and rest = "[]"]
          assertions_throw [where target = UserModule and w = world1]
          a b c d e f
    by (simp add: missingModule_def missingController_def className_def Anonymous_def UserController_def UserModule_def)
qed

section \<open>The global base route\<close>

lemma grows_refl: "grows w w" by (simp add: grows_def stable_def)

lemma grows_controller: "grows w u \<Longrightarrow> grows w (world_of (registerController C u))"
  by (auto simp: grows_def stable_def registerController_def Container_get_def app_use_def
        console_log_def mountedUnder_def Let_def split: option.splits)

lemma grows_groupController:
  "grows w u \<Longrightarrow> grows w (world_of (registerGroupController rp ms C u))"
  by (auto simp: grows_def stable_def registerGroupController_def Container_get_def app_use_def
        console_log_def mountedUnder_def Let_def split: option.splits)

lemma grows_setProvider: "grows w u \<Longrightarrow> grows w (world_of (setProvider C u))"
  by (auto simp: grows_def stable_def setProvider_def Container_set_def)

lemma grows_getProvider: "grows w u \<Longrightarrow> grows w (world_of (getProvider C u))"
  by (auto simp: grows_def stable_def getProvider_def Container_get_def Container_has_def
        split: option.splits)

lemma grows_log: "grows w u \<Longrightarrow> grows w (console_log s u)"
  by (auto simp: grows_def stable_def console_log_def)

lemma registerModules_grows: "grows w (world_of (registerModules regs w))"
  by (rule registerModules_preserves [where P = "grows w"])
     (simp_all add: grows_controller grows_groupController grows_setProvider grows_getProvider
        grows_log grows_refl)

lemma strip_empty_iff: "stripTrailingSlashes s = [] \<longleftrightarrow> (\<forall>c\<in>set s. c = CHR ''/'')"
  by (simp add: stripTrailingSlashes_def dropWhile_eq_Nil_conv)

lemma strip_last:
  assumes "stripTrailingSlashes s \<noteq> []"
  shows "last (stripTrailingSlashes s) \<noteq> CHR ''/''"
proof -
  have ne: "dropWhile (\<lambda>c. c = CHR ''/'') (rev s) \<noteq> []"
    using assms by (simp add: stripTrailingSlashes_def)
  then have "hd (dropWhile (\<lambda>c. c = CHR ''/'') (rev s)) \<noteq> CHR ''/''"
    using hd_dropWhile [of "\<lambda>c. c = CHR ''/''" "rev s"] by simp
  then show ?thesis using ne by (simp add: stripTrailingSlashes_def last_rev)
qed

lemma strip_hd:
  assumes "stripTrailingSlashes s \<noteq> []"
  shows "hd (stripTrailingSlashes s) = hd s"
proof -
  have "rev s = takeWhile (\<lambda>c. c = CHR ''/'') (rev s) @ dropWhile (\<lambda>c. c = CHR ''/'') (rev s)"
    by simp
  then have "s = stripTrailingSlashes s @ rev (takeWhile (\<lambda>c. c = CHR ''/'') (rev s))"
    unfolding stripTrailingSlashes_def by (metis rev_append rev_rev_ident)
  then show ?thesis using assms by (metis hd_append2)
qed

lemma baseRoute_stored:
  "globalBaseRoute (config (baseRoute p w)) =
     stripTrailingSlashes (if startsWithSlash p then p else ''/'' @ p)"
  by (cases p) (auto simp: baseRoute_def startsWithSlash_def stripTrailingSlashes_def Let_def)

lemma call_keeps_baseRoute:
  "\<forall>q. c \<noteq> CallBaseRoute q \<Longrightarrow>
     globalBaseRoute (config (world_of (call c w))) = globalBaseRoute (config w)"
proof (cases c)
  case (CallRegisterModules regs)
  then show ?thesis using registerModules_stable [OF stable_refl, of w regs] by (simp add: stable_def)
qed (simp_all add: createHttpMethod_def app_verb_def use_def useBefore_def handleNotFound_def
       enableJson_def enableUrlEncoded_def serveStatic_def app_use_def console_log_def Let_def)

lemma calls_keep_baseRoute:
  "\<forall>c\<in>set cs. \<forall>q. c \<noteq> CallBaseRoute q \<Longrightarrow>
     globalBaseRoute (config (calls cs w)) = globalBaseRoute (config w)"
  by (induction cs arbitrary: w) (simp_all add: call_keeps_baseRoute)

text \<open>
  C9, as amended. After \<open>baseRoute(p)\<close> the stored global base route is \<open>p\<close>, with a
  \<open>/\<close> put in front when it has none, without the slashes that end it. It is empty exactly
  when \<open>p\<close> is empty or made of slashes only; otherwise it starts with \<open>/\<close> and does not
  end with one. Calls other than \<open>baseRoute\<close> leave it as it is. A verb method mounts its
  route at the stored base route followed by the path given, and every layer that
  \<open>registerModules\<close> adds to the application is mounted at a path that starts with the
  stored base route.
\<close>

theorem baseRoute_normalised:
  "globalBaseRoute (config (baseRoute p w)) =
     stripTrailingSlashes (if startsWithSlash p then p else ''/'' @ p)
 \<and> (globalBaseRoute (config (baseRoute p w)) = [] \<longleftrightarrow> (\<forall>c\<in>set p. c = CHR ''/''))
 \<and> (globalBaseRoute (config (baseRoute p w)) \<noteq> [] \<longrightarrow>
      hd (globalBaseRoute (config (baseRoute p w))) = CHR ''/''
      \<and> last (globalBaseRoute (config (baseRoute p w))) \<noteq> CHR ''/'')
 \<and> ((\<forall>c\<in>set cs. \<forall>q. c \<noteq> CallBaseRoute q) \<longrightarrow>
      globalBaseRoute (config (calls cs v)) = globalBaseRoute (config v))
 \<and> (\<not> (m = GET \<and> hs = []) \<longrightarrow>
      app (createHttpMethod m q hs v) = app v @ [Verb m (globalBaseRoute (config v) @ q) hs])
 \<and> (\<exists>ls. app (world_of (registerModules regs v)) = app v @ ls
          \<and> list_all (mountedUnder (globalBaseRoute (config v))) ls)"
proof -
  let ?s = "if startsWithSlash p then p else ''/'' @ p"
  have a: "stripTrailingSlashes ?s = [] \<longleftrightarrow> (\<forall>c\<in>set p. c = CHR ''/'')"
    by (cases p) (auto simp: strip_empty_iff startsWithSlash_def)
  have b: "hd (stripTrailingSlashes ?s) = CHR ''/''" if "stripTrailingSlashes ?s \<noteq> []"
    using strip_hd [OF that] by (cases p) (auto simp: startsWithSlash_def)
  have c: "last (stripTrailingSlashes ?s) \<noteq> CHR ''/''" if "stripTrailingSlashes ?s \<noteq> []"
    using strip_last [OF that] .
  have d: "\<exists>ls. app (world_of (registerModules regs v)) = app v @ ls
          \<and> list_all (mountedUnder (globalBaseRoute (config v))) ls"
    using registerModules_grows [of v regs] by (simp add: grows_def)
  have e: "\<not> (m = GET \<and> hs = []) \<longrightarrow>
      app (createHttpMethod m q hs v) = app v @ [Verb m (globalBaseRoute (config v) @ q) hs]"
    by (simp add: createHttpMethod_def app_verb_def Let_def)
  show ?thesis
    unfolding baseRoute_stored using a b c d e calls_keep_baseRoute [of cs v] by blast
qed

theorem baseRoute_normalised_witness:
  "globalBaseRoute (config (baseRoute ''api/v1//'' world0)) = ''/api/v1''
 \<and> globalBaseRoute (config (calls [CallEnableJson] (baseRoute ''api/v1//'' world0))) = ''/api/v1''
 \<and> app (createHttpMethod POST ''/ping'' [auth] (baseRoute ''api/v1//'' world0))
     = [Verb POST ''/api/v1/ping'' [auth]]"
  using baseRoute_normalised [where p = "''api/v1//''" and w = world0 and cs = "[CallEnableJson]"
          and v = "baseRoute ''api/v1//'' world0" and m = POST and hs = "[auth]" and q = "''/ping''"]
  by (simp add: startsWithSlash_def stripTrailingSlashes_def baseRoute_def world0_def Let_def)

text \<open>
  C9 as stated fails: \<open>'//'\<close> is neither empty nor \<open>'/'\<close>, and the base route stored for
  it is the empty string, which does not start with \<open>/\<close>.
\<close>

theorem baseRoute_counterexample:
  "globalBaseRoute (config (baseRoute ''//'' world0)) = [] \<and> ''//'' \<noteq> [] \<and> ''//'' \<noteq> ''/''"
  by (simp add: baseRoute_def startsWithSlash_def stripTrailingSlashes_def Let_def)

section \<open>Controllers are mounted\<close>

lemma same_refl: "same w w"
  by (simp add: same_def stable_def)

lemma same_trans: "same u v \<Longrightarrow> same v w \<Longrightarrow> same u w"
  by (simp add: same_def stable_def)

lemma wired_same: "wired ls cs w v \<Longrightarrow> same w v"
  by (simp add: wired_def)

lemma wired_refl: "wired [] [] w w"
  by (simp add: wired_def same_refl)

lemma wired_trans:
  assumes "wired ls1 cs1 u v" and "wired ls2 cs2 v w"
  shows "wired (ls1 @ ls2) (cs1 @ cs2) u w"
proof -
  have s: "same u w" using assms same_trans wired_same by blast
  have a: "app w = app u @ ls1 @ ls2" using assms by (simp add: wired_def)
  have c1: "list_all (\<lambda>C. container w C = Some (Some (containerInstance C u))) cs1"
    using assms by (simp add: wired_def same_def list_all_iff)
  have c2: "list_all (\<lambda>C. container w C = Some (Some (containerInstance C u))) cs2"
    using assms by (simp add: wired_def same_def list_all_iff)
  show ?thesis using s a c1 c2 by (simp add: wired_def)
qed

lemma forEach_wired:
  assumes step: "\<And>x u u'. f x u = Done u' \<Longrightarrow> wired (g u x) (h u x) u u'"
    and cong: "\<And>x u u'. same u u' \<Longrightarrow> g u' x = g u x \<and> h u' x = h u x"
    and run: "forEach f xs w = Done w'"
  shows "wired (concat (map (g w) xs)) (concat (map (h w) xs)) w w'"
  using run
proof (induction xs arbitrary: w)
  case Nil
  then show ?case by (simp add: wired_refl)
next
  case (Cons x xs)
  from Cons.prems obtain u where fx: "f x w = Done u" and rest: "forEach f xs u = Done w'"
    by (cases "f x w") simp_all
  have w1: "wired (g w x) (h w x) w u" using step fx by blast
  have w2: "wired (concat (map (g u) xs)) (concat (map (h u) xs)) u w'"
    using Cons.IH rest by blast
  have eq: "map (g u) xs = map (g w) xs \<and> map (h u) xs = map (h w) xs"
    using cong [OF wired_same [OF w1]] by simp
  show ?case using wired_trans [OF w1 w2] eq by simp
qed

lemma controllerMount_same:
  "same u v \<Longrightarrow> controllerMount rp ms v C = controllerMount rp ms u C"
  by (simp add: same_def stable_def controllerMount_def basePathOf_def middlewaresOf_def
        routesOf_def Reflect_getMetadata_def)

lemma moduleControllers_same: "same u v \<Longrightarrow> moduleControllers md v = moduleControllers md u"
  by (simp add: same_def stable_def moduleControllers_def moduleMetadataOf_def
        Reflect_getMetadata_def)

lemma Container_get_instance:
  "Container_get C w = Inr (i, v) \<Longrightarrow> i = containerInstance C w"
  by (auto simp: Container_get_def containerInstance_def split: option.splits)

lemma Container_get_same:
  assumes "Container_get C w = Inr (i, v)"
  shows "same w v \<and> app v = app w \<and> container v C = Some (Some i)"
proof (cases "container w C")
  case None
  then show ?thesis using assms by (simp add: Container_get_def)
next
  case (Some entry)
  show ?thesis
  proof (cases entry)
    case None
    then have "i = construct C" and "v = w\<lparr>container := (container w)(C \<mapsto> Some (construct C))\<rparr>"
      using assms Some by (auto simp: Container_get_def)
    then show ?thesis
      using Some None by (simp add: same_def stable_def containerInstance_def)
  next
    case (Some x)
    then have "i = x" and "v = w" using assms \<open>container w C = Some entry\<close>
      by (auto simp: Container_get_def)
    then show ?thesis using Some \<open>container w C = Some entry\<close> by (simp add: same_refl)
  qed
qed

lemma same_mounted:
  "same w u \<Longrightarrow> same w (console_log s (app_use p hs u))"
  by (simp add: same_def stable_def console_log_def app_use_def containerInstance_def)

lemma registerController_wired:
  assumes "registerController C w = Done v"
  shows "wired [controllerMount [] (globalMiddlewares (config w)) w C] [C] w v"
proof (cases "assertController C w")
  case (Some e)
  then show ?thesis using assms by (simp add: registerController_def)
next
  case None
  show ?thesis
  proof (cases "Container_get C w")
    case (Inl e)
    then show ?thesis using assms None by (simp add: registerController_def)
  next
    case (Inr r)
    obtain i u where r: "r = (i, u)" by (cases r)
    have g: "Container_get C w = Inr (i, u)" using Inr r by simp
    have i: "i = containerInstance C w" using Container_get_instance [OF g] .
    have su: "same w u" and au: "app u = app w" and cu: "container u C = Some (Some i)"
      using Container_get_same [OF g] by simp_all
    have cfg: "config u = config w" and md: "metadata u = metadata w"
      using su by (simp_all add: same_def stable_def)
    have ro: "routesOf C u = routesOf C w"
      using md by (simp add: routesOf_def Reflect_getMetadata_def)
    define s where "s = check_mark @ '' Registered controller: '' @ cname C @ '' at ''
                          @ globalBaseRoute (config w) @ basePathOf C w"
    have v: "v = console_log s
                  (app_use (Some (globalBaseRoute (config w) @ basePathOf C w))
                     [Router (controllerRouter (globalMiddlewares (config w)) (middlewaresOf C w)
                                i (routesOf C w))] u)"
      using assms None g by (simp add: registerController_def Let_def cfg ro s_def app_use_def)
    have sv: "same w v" unfolding v using su by (rule same_mounted)
    have av: "app v = app w @ [controllerMount [] (globalMiddlewares (config w)) w C]"
      unfolding v by (simp add: console_log_def app_use_def au controllerMount_def i)
    have cv: "container v C = Some (Some (containerInstance C w))"
      unfolding v using cu i by (simp add: console_log_def app_use_def)
    show ?thesis using sv av cv by (simp add: wired_def)
  qed
qed

lemma registerGroupController_wired:
  assumes "registerGroupController rp ms C w = Done v"
  shows "wired [controllerMount rp ms w C] [C] w v"
proof (cases "assertController C w")
  case (Some e)
  then show ?thesis using assms by (simp add: registerGroupController_def)
next
  case None
  show ?thesis
  proof (cases "Container_get C w")
    case (Inl e)
    then show ?thesis using assms None by (simp add: registerGroupController_def)
  next
    case (Inr r)
    obtain i u where r: "r = (i, u)" by (cases r)
    have g: "Container_get C w = Inr (i, u)" using Inr r by simp
    have i: "i = containerInstance C w" using Container_get_instance [OF g] .
    have su: "same w u" and au: "app u = app w" and cu: "container u C = Some (Some i)"
      using Container_get_same [OF g] by simp_all
    have cfg: "config u = config w" and md: "metadata u = metadata w"
      using su by (simp_all add: same_def stable_def)
    have ro: "routesOf C u = routesOf C w"
      using md by (simp add: routesOf_def Reflect_getMetadata_def)
    define s where "s = check_mark @ '' Registered controller: '' @ cname C @ '' at ''
                          @ globalBaseRoute (config w) @ rp @ basePathOf C w"
    have v: "v = console_log s
                  (app_use (Some (globalBaseRoute (config w) @ rp @ basePathOf C w))
                     [Router (controllerRouter ms (middlewaresOf C w) i (routesOf C w))] u)"
      using assms None g
      by (simp add: registerGroupController_def Let_def cfg ro s_def app_use_def)
    have sv: "same w v" unfolding v using su by (rule same_mounted)
    have av: "app v = app w @ [controllerMount rp ms w C]"
      unfolding v by (simp add: console_log_def app_use_def au controllerMount_def i)
    have cv: "container v C = Some (Some (containerInstance C w))"
      unfolding v using cu i by (simp add: console_log_def app_use_def)
    show ?thesis using sv av cv by (simp add: wired_def)
  qed
qed

lemma setProvider_wired: "setProvider C w = Done v \<Longrightarrow> wired [] [] w v"
  by (cases "container w C")
     (auto simp: setProvider_def wired_def same_def stable_def Container_set_def Container_has_def
        containerInstance_def)

lemma getProvider_wired: 
  assumes "getProvider C w = Done v" shows "wired [] [] w v"
proof (cases "Container_has C w")
  case True
  then show ?thesis using assms by (simp add: getProvider_def wired_refl)
next
  case False
  then have "Container_get C w = Inl (ServiceNotFoundError (cname C))"
    by (simp add: Container_has_def Container_get_def)
  then show ?thesis using assms False by (simp add: getProvider_def)
qed

lemma console_log_wired: "wired ls cs w v \<Longrightarrow> wired ls cs w (console_log s v)"
  by (simp add: wired_def same_def stable_def console_log_def containerInstance_def)

lemma and_then_Done: "and_then r f = Done v \<Longrightarrow> \<exists>u. r = Done u \<and> f u = Done v"
  by (cases r) simp_all

lemma concat_map_Nil: "concat (map (\<lambda>x. []) xs) = []"
  by (induction xs) simp_all

lemma providers_wired:
  assumes "\<And>C u u'. f C u = Done u' \<Longrightarrow> wired [] [] u u'" and "forEach f ps w = Done v"
  shows "wired [] [] w v"
  using forEach_wired [where f = f and g = "\<lambda>u x. []" and h = "\<lambda>u x. []" and xs = ps, OF _ _ assms(2)]
        assms(1)
  by (simp add: concat_map_Nil)

lemma controllers_wired:
  assumes "\<And>C u u'. f C u = Done u' \<Longrightarrow> wired [k u C] [C] u u'"
    and "\<And>C u u'. same u u' \<Longrightarrow> k u' C = k u C"
    and "(if length cs > 0 then forEach f cs w else Done w) = Done v"
  shows "wired (map (k w) cs) cs w v"
proof (cases "length cs > 0")
  case True
  then have run: "forEach f cs w = Done v" using assms(3) by simp
  have "wired (concat (map (\<lambda>C. [k w C]) cs)) (concat (map (\<lambda>C. [C]) cs)) w v"
    using forEach_wired [where f = f and g = "\<lambda>u C. [k u C]" and h = "\<lambda>u C. [C]", OF _ _ run]
          assms(1,2) by simp
  moreover have "concat (map (\<lambda>C. [k w C]) cs) = map (k w) cs"
    by (induction cs) simp_all
  moreover have "concat (map (\<lambda>C. [C]) cs) = cs"
    by (induction cs) simp_all
  ultimately show ?thesis by simp
next
  case False
  then show ?thesis using assms(3) by (simp add: wired_refl)
qed

lemma module_wired:
  assumes prov: "\<And>C u u'. f C u = Done u' \<Longrightarrow> wired [] [] u u'"
    and ctl: "\<And>C u u'. c C u = Done u' \<Longrightarrow> wired [k u C] [C] u u'"
    and cong: "\<And>C u u'. same u u' \<Longrightarrow> k u' C = k u C"
    and run: "and_then (forEach f ps w) (\<lambda>w1.
              and_then (if length cs > 0 then forEach c cs w1 else Done w1) (\<lambda>w2.
              Done (console_log s w2))) = Done v"
  shows "wired (map (k w) cs) cs w v"
proof -
  from and_then_Done [OF run] obtain w1 where
    a: "forEach f ps w = Done w1" and
    b: "and_then (if length cs > 0 then forEach c cs w1 else Done w1) (\<lambda>w2.
              Done (console_log s w2)) = Done v" by blast
  from and_then_Done [OF b] obtain w2 where
    c: "(if length cs > 0 then forEach c cs w1 else Done w1) = Done w2" and
    d: "v = console_log s w2" by auto
  have e: "wired [] [] w w1" using providers_wired [OF prov a] .
  have f: "wired (map (k w1) cs) cs w1 w2" using controllers_wired [OF ctl cong c] .
  have g: "map (k w1) cs = map (k w) cs" using cong [OF wired_same [OF e]] by simp
  show ?thesis
    unfolding d using wired_trans [OF e f] g by (simp add: console_log_wired)
qed

lemma registerGroupModule_wired:
  assumes "registerGroupModule rp ms md w = Done v"
  shows "wired (map (controllerMount rp ms w) (moduleControllers md w)) (moduleControllers md w) w v"
proof (cases "assertModule md w")
  case (Some e)
  then show ?thesis using assms by (simp add: registerGroupModule_def)
next
  case None
  show ?thesis
  proof (cases "moduleMetadataOf md w")
    case (Inl e)
    then show ?thesis using assms None by (simp add: registerGroupModule_def)
  next
    case (Inr meta)
    have mc: "moduleControllers md w = controllersOf meta"
      using Inr by (simp add: moduleControllers_def)
    have run: "and_then (forEach getProvider (providersOf meta) w) (\<lambda>w1.
               and_then (if length (controllersOf meta) > 0
                         then forEach (registerGroupController rp ms) (controllersOf meta) w1
                         else Done w1) (\<lambda>w2.
               Done (console_log (check_mark @ '' Loaded module: '' @ cname md) w2))) = Done v"
      using assms unfolding registerGroupModule_def None Inr option.case sum.case .
    show ?thesis
      unfolding mc
      by (rule module_wired [where k = "controllerMount rp ms", OF _ _ _ run])
         (simp_all add: getProvider_wired registerGroupController_wired controllerMount_same)
  qed
qed

lemma controllerMount_direct_same:
  "same u v \<Longrightarrow> controllerMount [] (globalMiddlewares (config v)) v C =
                 controllerMount [] (globalMiddlewares (config u)) u C"
  using controllerMount_same [of u v] by (simp add: same_def stable_def)

lemma registerItem_wired:
  assumes "registerItem item w = Done v"
  shows "wired (itemMounts w item) (itemControllers w item) w v"
proof (cases item)
  case (ModuleItem md)
  show ?thesis
  proof (cases "assertModule md w")
    case (Some e)
    then show ?thesis using assms ModuleItem by simp
  next
    case None
    show ?thesis
    proof (cases "moduleMetadataOf md w")
      case (Inl e)
      then show ?thesis using assms None ModuleItem by simp
    next
      case (Inr meta)
      have mc: "moduleControllers md w = controllersOf meta"
        using Inr by (simp add: moduleControllers_def)
      have run: "and_then (forEach setProvider (providersOf meta) w) (\<lambda>w1.
               and_then (if length (controllersOf meta) > 0
                         then forEach registerController (controllersOf meta) w1
                         else Done w1) (\<lambda>w2.
               Done (console_log (check_mark @ '' Loaded module: '' @ cname md) w2))) = Done v"
        using assms
        unfolding ModuleItem registerItem.simps registerControllers_def None Inr option.case sum.case .
      have "wired (map (\<lambda>C. controllerMount [] (globalMiddlewares (config w)) w C) (controllersOf meta))
              (controllersOf meta) w v"
        by (rule module_wired [where k = "\<lambda>u C. controllerMount [] (globalMiddlewares (config u)) u C",
              OF _ _ _ run])
           (simp_all add: setProvider_wired registerController_wired controllerMount_direct_same)
      then show ?thesis
        by (simp add: ModuleItem itemControllers_def mc)
    qed
  qed
next
  case (GroupItem g)
  show ?thesis
  proof (cases "modules g")
    case None
    then show ?thesis using assms GroupItem by (simp add: wired_refl itemControllers_def)
  next
    case (Some mp)
    show ?thesis
    proof (cases mp)
      case (ModulesArray mods)
      define rp where "rp = (case route g of None \<Rightarrow> [] | Some r \<Rightarrow> r)"
      define ms where "ms = (case middlewares g of None \<Rightarrow> [] | Some m \<Rightarrow> m)"
      have run: "forEach (registerGroupModule rp ms) mods w = Done v"
        using assms by (simp add: GroupItem Some ModulesArray rp_def ms_def)
      have "wired (concat (map (\<lambda>md. map (controllerMount rp ms w) (moduleControllers md w)) mods))
                  (concat (map (\<lambda>md. moduleControllers md w) mods)) w v"
        using forEach_wired [where f = "registerGroupModule rp ms"
                and g = "\<lambda>u md. map (controllerMount rp ms u) (moduleControllers md u)"
                and h = "\<lambda>u md. moduleControllers md u", OF _ _ run]
              registerGroupModule_wired controllerMount_same moduleControllers_same
        by simp
      then show ?thesis
        by (simp add: GroupItem Some ModulesArray itemControllers_def rp_def ms_def)
    next
      case (ModulesOther x)
      then show ?thesis using assms GroupItem Some by (simp add: wired_refl itemControllers_def)
    qed
  qed
next
  case (PrimitiveItem x)
  then show ?thesis using assms by simp
qed

lemma itemMounts_same:
  assumes "same u v" shows "itemMounts v item = itemMounts u item"
proof -
  have a: "controllerMount rp ms v = controllerMount rp ms u" for rp ms
    using controllerMount_same [OF assms] by (intro ext)
  have b: "moduleControllers md v = moduleControllers md u" for md
    using moduleControllers_same [OF assms] .
  have c: "config v = config u" using assms by (simp add: same_def stable_def)
  show ?thesis by (cases item) (simp_all add: a b c)
qed

lemma itemControllers_same:
  assumes "same u v" shows "itemControllers v item = itemControllers u item"
  using moduleControllers_same [OF assms] by (simp add: itemControllers_def)

lemma registerModules_wired:
  assumes "registerModules regs w = Done v"
  shows "wired (expectedMounts w regs) (listedControllers w regs) w v"
  unfolding expectedMounts_def listedControllers_def
  using assms unfolding registerModules_def
  by (rule forEach_wired [where f = registerItem and g = itemMounts and h = itemControllers,
            rotated 2])
     (simp_all add: registerItem_wired itemMounts_same itemControllers_same)

text \<open>
  C4. When \<open>registerModules\<close> returns, the application has gained, in the order of the
  list, one layer for every controller in the metadata of every module passed, directly or
  in a group: a router made for that controller alone, used at the global base route, then
  the group's route prefix (nothing for a module passed directly), then the controller's
  base path. The routes of the router call the instance the container gives for the class,
  and \<open>Container.get\<close> gives that same instance afterwards. Metadata and configuration
  are as before.
\<close>

theorem registerModules_mounts:
  assumes "registerModules regs w = Done v"
  shows "app v = app w @ expectedMounts w regs
       \<and> (\<forall>C i u. Container_get C w = Inr (i, u) \<longrightarrow> i = containerInstance C w)
       \<and> (\<forall>C\<in>set (listedControllers w regs).
             Container_get C v = Inr (containerInstance C w, v))
       \<and> metadata v = metadata w \<and> config v = config w"
proof -
  have wd: "wired (expectedMounts w regs) (listedControllers w regs) w v"
    using registerModules_wired [OF assms] .
  have "Container_get C v = Inr (containerInstance C w, v)"
    if "C \<in> set (listedControllers w regs)" for C
  proof -
    have "container v C = Some (Some (containerInstance C w))"
      using wd that by (simp add: wired_def list_all_iff)
    then show ?thesis by (simp add: Container_get_def)
  qed
  then show ?thesis
    using wd Container_get_instance by (simp add: wired_def same_def stable_def)
qed

lemma world1_meta:
  "metadata world1 = [(''codex:routes'', UserController) \<mapsto> MRoutes
       [\<lparr>route_method = GET, route_path = ''/'', route_handler = PStr ''list'', route_middlewares = []\<rparr>,
        \<lparr>route_method = POST, route_path = ''/fail'', route_handler = PStr ''fail'', route_middlewares = [auth]\<rparr>],
      (''codex:controller'', UserController) \<mapsto> MString ''/users'',
      (''codex:middlewares'', UserController) \<mapsto> MHandlers [],
      (''codex:module'', UserModule) \<mapsto> MModule \<lparr>controllers = Some [UserController], providers = None\<rparr>]"
  by (simp add: example_defs)

lemma world1_container: "container world1 = [UserController \<mapsto> None, UserModule \<mapsto> None]"
  by (simp add: example_defs)

lemma world1_rest: "app world1 = [] \<and> config world1 = initial_config"
  by (simp add: example_defs)

lemma example_registration_returns: "\<exists>v. registerModules [ModuleItem UserModule, apiGroup] (baseRoute ''api'' world1) = Done v"
  by (simp add: registerModules_def apiGroup_def baseRoute_def assertModule_def isModule_def Reflect_hasMetadata_def
     world1_meta world1_container moduleMetadataOf_def Reflect_getMetadata_def  providersOf_def controllersOf_def
     registerControllers_def registerController_def assertController_def isController_def 
     registerGroupModule_def registerGroupController_def  Container_get_def app_use_def console_log_def Let_def
     UserController_def UserModule_def)

theorem registerModules_mounts_witness:
  "app (world_of (registerModules [ModuleItem UserModule, apiGroup] (baseRoute ''api'' world1))) =
     [Use (Some ''/api/users'')
        [Router [Verb GET ''/'' [Fn (createHandler userInstance (PStr ''list''))],
                 Verb POST ''/fail'' [auth, Fn (createHandler userInstance (PStr ''fail''))]]],
      Use (Some ''/api/v2/users'')
        [Router [Use None [auth],
                 Verb GET ''/'' [Fn (createHandler userInstance (PStr ''list''))],
                 Verb POST ''/fail'' [auth, Fn (createHandler userInstance (PStr ''fail''))]]]]"
proof -
  obtain v where run:
    "registerModules [ModuleItem UserModule, apiGroup] (baseRoute ''api'' world1) = Done v"
    using example_registration_returns by blast
  have m: "metadata (baseRoute ''api'' world1) = metadata world1"
    and c: "container (baseRoute ''api'' world1) = container world1"
    and a: "app (baseRoute ''api'' world1) = []"
    and g: "globalBaseRoute (config (baseRoute ''api'' world1)) = ''/api''"
    and gm: "globalMiddlewares (config (baseRoute ''api'' world1)) = []"
    by (simp_all add: baseRoute_def world1_rest initial_config_def startsWithSlash_def
          stripTrailingSlashes_def Let_def)
  have e: "expectedMounts (baseRoute ''api'' world1) [ModuleItem UserModule, apiGroup] =
     [Use (Some ''/api/users'')
        [Router [Verb GET ''/'' [Fn (createHandler userInstance (PStr ''list''))],
                 Verb POST ''/fail'' [auth, Fn (createHandler userInstance (PStr ''fail''))]]],
      Use (Some ''/api/v2/users'')
        [Router [Use None [auth],
                 Verb GET ''/'' [Fn (createHandler userInstance (PStr ''list''))],
                 Verb POST ''/fail'' [auth, Fn (createHandler userInstance (PStr ''fail''))]]]]"
    by (simp add: expectedMounts_def apiGroup_def moduleControllers_def moduleMetadataOf_def
          Reflect_getMetadata_def controllersOf_def controllerMount_def basePathOf_def
          middlewaresOf_def routesOf_def containerInstance_def controllerRouter_def
          ExpressRouter_def router_use_def router_verb_def addRoute_def m c g gm world1_meta
          world1_container world1_rest initial_config_def Let_def
          UserController_def UserModule_def)
  show ?thesis
    using registerModules_mounts [OF run] by (simp add: run a e)
qed

section \<open>The proxy forwards to Express\<close>

lemma blocked_are_codexKeys: "s \<in> set blocked \<Longrightarrow> s \<in> set codexKeys"
  by (auto simp: blocked_def codexKeys_def)

lemma not_blocked:
  assumes "isCodex target" and "own target k = None"
  shows "\<not> blocked_includes k"
proof (cases k)
  case (PStr s)
  have "s \<notin> set codexKeys"
    using assms PStr by (auto simp: isCodex_def list_all_iff)
  then show ?thesis using PStr blocked_are_codexKeys by (auto simp: blocked_includes_def)
next
  case (PSym n)
  then show ?thesis by (simp add: blocked_includes_def)
qed

text \<open>
  C7. For a property that the \<open>Codex\<close> object does not have, reading it on the object the
  constructor returns gives what the Express application has under that name: the value
  itself when it is no function, and otherwise a function that calls the application's
  function with the application as \<open>this\<close> and the same arguments, and returns the proxy
  where that call returns the application, and the call's own result or error otherwise.
\<close>

theorem proxy_forwards:
  assumes "isCodex target" and "own target k = None"
  shows "(\<forall>d. read_member (app_members target) k = Data d \<longrightarrow> proxy_get target k = Data d)
       \<and> (\<forall>f. read_member (app_members target) k = Function f \<longrightarrow>
            (\<exists>g. proxy_get target k = Function g
               \<and> (\<forall>this args st. g this args st =
                     (case f (Obj (app_ref target)) args st of
                        (Return r, st') \<Rightarrow>
                          (Return (if r = Obj (app_ref target) then Obj (proxy_ref target) else r), st')
                      | (Throw e, st') \<Rightarrow> (Throw e, st')))))"
  using assms not_blocked [OF assms]
  by (simp add: proxy_get_def proxyHandler_def)

lemma codexTarget_isCodex: "isCodex codexTarget"
  by (simp add: isCodex_def codexTarget_def list_all_iff)

lemma not_codex_keys:
  "''locals'' \<notin> set codexKeys \<and> ''set'' \<notin> set codexKeys \<and> ''listen'' \<notin> set codexKeys"
  by (simp add: codexKeys_def)

theorem proxy_forwards_witness:
  "proxy_get codexTarget (PStr ''locals'') = Data (Prim (JObj []))
 \<and> (\<exists>g. proxy_get codexTarget (PStr ''set'') = Function g
        \<and> g (Obj 7) [Prim (JStr ''view engine''), Prim (JStr ''ejs'')] []
            = (Return (Obj 1), [(''view engine'', JStr ''ejs'')]))
 \<and> (\<exists>g. proxy_get codexTarget (PStr ''listen'') = Function g
        \<and> g (Obj 7) [Prim (JNum 3000)] [] = (Return (Obj 2), []))"
proof -
  have c: "isCodex codexTarget" by (rule codexTarget_isCodex)
  have o: "own codexTarget (PStr ''locals'') = None" "own codexTarget (PStr ''set'') = None"
          "own codexTarget (PStr ''listen'') = None"
    using not_codex_keys by (simp_all add: codexTarget_def)
  have r: "read_member (app_members codexTarget) (PStr ''locals'') = Data (Prim (JObj []))"
    by (simp add: codexTarget_def expressMembers_def read_member_def)
  show ?thesis
    using proxy_forwards [OF c o(1)] proxy_forwards [OF c o(2)] proxy_forwards [OF c o(3)]
    by (simp add: r) (auto simp: codexTarget_def expressMembers_def read_member_def)
qed

end
